theory Spec2Isabelle
  imports Main
begin

section \<open>Python values, exceptions and the HTTP access layer\<close>

text \<open>
  The provider's payloads are decoded JSON. A Python \<open>dict\<close> is an association list
  in insertion order (lookups take the first binding of a key), a Python \<open>list\<close> a
  list. Strings are byte strings. Numbers are integers: none of the payloads read here
  carries a fractional number.
\<close>

datatype json =
    JNull
  | JBool bool
  | JInt int
  | JStr string
  | JList "json list"
  | JObj "(string \<times> json) list"

text \<open>
  The exceptions the modelled code raises or lets through. \<open>RuntimeError\<close> carries
  its \<open>args\<close> tuple, which \<open>GitHubRepository.commits\<close> inspects; the two IGitt
  exceptions carry the message the source builds.
\<close>

datatype error =
    RuntimeError "json list"
  | ElementAlreadyExistsError string
  | ElementDoesntExistError string
  | KeyError
  | TypeError
  | AttributeError
  | IndexError
  | AssertionError

text \<open>Hashable values, as the elements of a Python \<open>set\<close>: \<open>True == 1\<close> and
  \<open>False == 0\<close> hash and compare alike; lists and dicts are unhashable.\<close>

datatype pykey = KNone | KInt int | KStr string

fun py_key :: "json \<Rightarrow> error + pykey" where
  "py_key JNull = Inr KNone"
| "py_key (JBool b) = Inr (KInt (if b then 1 else 0))"
| "py_key (JInt i) = Inr (KInt i)"
| "py_key (JStr s) = Inr (KStr s)"
| "py_key (JList xs) = Inl TypeError"
| "py_key (JObj kvs) = Inl TypeError"

text \<open>\<open>for x in value\<close>: a list yields its elements, a dict its keys, a string its
  characters; anything else is not iterable.\<close>

fun py_iter :: "json \<Rightarrow> error + json list" where
  "py_iter (JList xs) = Inr xs"
| "py_iter (JObj kvs) = Inr (map (\<lambda>kv. JStr (fst kv)) kvs)"
| "py_iter (JStr s) = Inr (map (\<lambda>c. JStr [c]) s)"
| "py_iter JNull = Inl TypeError"
| "py_iter (JBool b) = Inl TypeError"
| "py_iter (JInt i) = Inl TypeError"

text \<open>\<open>value[key]\<close> with a string key: only a dict can be subscripted by a string.\<close>

fun py_getitem :: "json \<Rightarrow> string \<Rightarrow> error + json" where
  "py_getitem (JObj kvs) k = (case map_of kvs k of None \<Rightarrow> Inl KeyError | Some v \<Rightarrow> Inr v)"
| "py_getitem JNull k = Inl TypeError"
| "py_getitem (JBool b) k = Inl TypeError"
| "py_getitem (JInt i) k = Inl TypeError"
| "py_getitem (JStr s) k = Inl TypeError"
| "py_getitem (JList xs) k = Inl TypeError"

text \<open>\<open>value.get(key)\<close>: a dict method; the default is \<open>None\<close>.\<close>

fun py_dict_get :: "json \<Rightarrow> string \<Rightarrow> error + json" where
  "py_dict_get (JObj kvs) k = (case map_of kvs k of None \<Rightarrow> Inr JNull | Some v \<Rightarrow> Inr v)"
| "py_dict_get JNull k = Inl AttributeError"
| "py_dict_get (JBool b) k = Inl AttributeError"
| "py_dict_get (JInt i) k = Inl AttributeError"
| "py_dict_get (JStr s) k = Inl AttributeError"
| "py_dict_get (JList xs) k = Inl AttributeError"

text \<open>\<open>d[key] = v\<close> on a dict held as an association list: an existing key keeps its
  position, a new key goes last.\<close>

fun dict_set :: "(string \<times> json) list \<Rightarrow> string \<Rightarrow> json \<Rightarrow> (string \<times> json) list" where
  "dict_set [] k v = [(k, v)]"
| "dict_set ((k', v') # kvs) k v = (if k' = k then (k, v) # kvs else (k', v') # dict_set kvs k v)"

text \<open>Sequencing of failing pure steps, and a map that stops at the first exception.\<close>

definition try_bind :: "error + 'a \<Rightarrow> ('a \<Rightarrow> error + 'b) \<Rightarrow> error + 'b" where
  "try_bind r f = (case r of Inl e \<Rightarrow> Inl e | Inr x \<Rightarrow> f x)"

fun try_map :: "('a \<Rightarrow> error + 'b) \<Rightarrow> 'a list \<Rightarrow> error + 'b list" where
  "try_map f [] = Inr []"
| "try_map f (x # xs) =
     (case f x of
        Inl e \<Rightarrow> Inl e
      | Inr y \<Rightarrow> (case try_map f xs of Inl e \<Rightarrow> Inl e | Inr ys \<Rightarrow> Inr (y # ys)))"

subsection \<open>Requests, replies and the world\<close>

datatype http_method = GET | POST | PUT | DELETE

record request =
  req_method :: http_method
  req_token :: string
  req_url :: string
  req_payload :: "json option"

text \<open>A reply is a decoded 2xx body, or a non-2xx status with its raw body.\<close>

datatype http_reply = Ok json | Failed string int

text \<open>
  The world a method runs in: the object it is called on (\<open>self\<close>), the state of the
  provider behind the access layer, and the exchanges made so far, oldest first.
\<close>

record ('o, 's) world =
  self :: 'o
  server :: 's
  trace :: "(request \<times> http_reply) list"

type_synonym 's net = "'s \<Rightarrow> request \<Rightarrow> http_reply \<times> 's"

type_synonym ('o, 's, 'a) act = "('o, 's) world \<Rightarrow> (error + 'a) \<times> ('o, 's) world"

definition io_return :: "'a \<Rightarrow> ('o, 's, 'a) act" where
  "io_return x = (\<lambda>w. (Inr x, w))"

definition io_raise :: "error \<Rightarrow> ('o, 's, 'a) act" where
  "io_raise e = (\<lambda>w. (Inl e, w))"

definition io_lift :: "error + 'a \<Rightarrow> ('o, 's, 'a) act" where
  "io_lift r = (\<lambda>w. (r, w))"

definition io_bind :: "('o, 's, 'a) act \<Rightarrow> ('a \<Rightarrow> ('o, 's, 'b) act) \<Rightarrow> ('o, 's, 'b) act" where
  "io_bind m f = (\<lambda>w. case m w of (Inl e, w') \<Rightarrow> (Inl e, w') | (Inr x, w') \<Rightarrow> f x w')"

text \<open>
  Modelled from the spec: the HTTP access layer (\<open>IGitt.Interfaces._fetch\<close> and the
  \<open>get\<close>, \<open>post\<close>, \<open>put\<close>, \<open>delete\<close> helpers of \<open>IGitt.GitHub\<close> and
  \<open>IGitt.GitLab\<close>) is not among the sources. One call is one exchange with the
  provider \<open>net\<close> (pagination and the conditional cache are inside \<open>net\<close>): a 2xx
  answer is returned decoded, a non-2xx answer raises the generic runtime failure
  carrying \<open>(body, status)\<close>.
\<close>

definition fetch :: "'s net \<Rightarrow> request \<Rightarrow> ('o, 's, json) act" where
  "fetch net rq = (\<lambda>w.
     (case net (server w) rq of
        (rp, s') \<Rightarrow>
          (case rp of
             Ok j \<Rightarrow> Inr j
           | Failed body status \<Rightarrow> Inl (RuntimeError [JStr body, JInt status]),
           w\<lparr>server := s', trace := trace w @ [(rq, rp)]\<rparr>)))"

definition get :: "'s net \<Rightarrow> string \<Rightarrow> string \<Rightarrow> json option \<Rightarrow> ('o, 's, json) act" where
  "get net token url params =
     fetch net \<lparr>req_method = GET, req_token = token, req_url = url, req_payload = params\<rparr>"

definition post :: "'s net \<Rightarrow> string \<Rightarrow> string \<Rightarrow> json \<Rightarrow> ('o, 's, json) act" where
  "post net token url data =
     fetch net \<lparr>req_method = POST, req_token = token, req_url = url, req_payload = Some data\<rparr>"

definition put :: "'s net \<Rightarrow> string \<Rightarrow> string \<Rightarrow> json \<Rightarrow> ('o, 's, json) act" where
  "put net token url data =
     fetch net \<lparr>req_method = PUT, req_token = token, req_url = url, req_payload = Some data\<rparr>"

definition delete :: "'s net \<Rightarrow> string \<Rightarrow> string \<Rightarrow> json option \<Rightarrow> ('o, 's, json) act" where
  "delete net token url params =
     fetch net \<lparr>req_method = DELETE, req_token = token, req_url = url, req_payload = params\<rparr>"

subsection \<open>The lazy data object\<close>

record igitt_object =
  priv_token :: string
  priv_url :: string
  priv_data :: "json option"

text \<open>
  Modelled from the spec: the lazy data object base (\<open>IGittObject\<close> and the provider
  mixins) is not among the sources. Reading \<open>data\<close> for the first time GETs the
  object's URL and caches the decoded body; later reads return the cached snapshot
  without a request; assigning to \<open>data\<close> seeds the cache without a request.
\<close>

definition data :: "'s net \<Rightarrow> ('a igitt_object_scheme, 's, json) act" where
  "data net = (\<lambda>w.
     (case priv_data (self w) of
        Some d \<Rightarrow> (Inr d, w)
      | None \<Rightarrow>
          (case get net (priv_token (self w)) (priv_url (self w)) None w of
             (Inl e, w') \<Rightarrow> (Inl e, w')
           | (Inr d, w') \<Rightarrow> (Inr d, w'\<lparr>self := (self w')\<lparr>priv_data := Some d\<rparr>\<rparr>))))"

definition set_data :: "json \<Rightarrow> ('a igitt_object_scheme, 's, unit) act" where
  "set_data d = (\<lambda>w. (Inr (), w\<lparr>self := (self w)\<lparr>priv_data := Some d\<rparr>\<rparr>))"

subsection \<open>Python builtins used by the adapters\<close>

text \<open>\<open>str(n)\<close> of an integer: decimal digits, a leading minus sign when negative.\<close>

fun digits_of :: "nat \<Rightarrow> string" where
  "digits_of n =
     (if n < 10 then [''0123456789'' ! n]
      else digits_of (n div 10) @ [''0123456789'' ! (n mod 10)])"

declare digits_of.simps [simp del]

definition str_int :: "int \<Rightarrow> string" where
  "str_int i = (if i < 0 then CHR ''-'' # digits_of (nat (- i)) else digits_of (nat i))"

text \<open>
  \<open>int(s)\<close> of a string (ASCII): surrounding whitespace is stripped, one sign is
  allowed, then decimal digits, where single underscores may separate digits. The result
  is \<open>None\<close> where Python raises \<open>ValueError\<close>.
\<close>

definition is_digit :: "char \<Rightarrow> bool" where
  "is_digit c = (c \<in> set ''0123456789'')"

definition digit_val :: "char \<Rightarrow> int" where
  "digit_val c = int (of_char c) - 48"

definition is_space :: "char \<Rightarrow> bool" where
  "is_space c = ((of_char c :: nat) \<in> {9, 10, 11, 12, 13, 32})"

definition strip :: "string \<Rightarrow> string" where
  "strip s = rev (dropWhile is_space (rev (dropWhile is_space s)))"

fun digits_ok :: "string \<Rightarrow> bool" where
  "digits_ok [] = False"
| "digits_ok [c] = is_digit c"
| "digits_ok (c # d # r) =
     (is_digit c \<and> (if d = CHR ''_'' then digits_ok r else digits_ok (d # r)))"

definition digits_value :: "string \<Rightarrow> int" where
  "digits_value t = foldl (\<lambda>a c. 10 * a + digit_val c) 0 (filter is_digit t)"

definition py_int_str :: "string \<Rightarrow> int option" where
  "py_int_str s =
     (case strip s of
        [] \<Rightarrow> None
      | c # r \<Rightarrow>
          if c = CHR ''-'' then (if digits_ok r then Some (- digits_value r) else None)
          else if c = CHR ''+'' then (if digits_ok r then Some (digits_value r) else None)
          else if digits_ok (c # r) then Some (digits_value (c # r)) else None)"

text \<open>\<open>repr\<close> and \<open>str\<close> of a decoded JSON value (ASCII strings).\<close>

definition hex2 :: "nat \<Rightarrow> string" where
  "hex2 n = [''0123456789abcdef'' ! (n div 16 mod 16), ''0123456789abcdef'' ! (n mod 16)]"

definition repr_char :: "char \<Rightarrow> char \<Rightarrow> string" where
  "repr_char q c =
     (if c = q \<or> c = CHR 0x5C then [CHR 0x5C, c]
      else if c = CHR 0x0A then [CHR 0x5C, CHR ''n'']
      else if c = CHR 0x0D then [CHR 0x5C, CHR ''r'']
      else if c = CHR 0x09 then [CHR 0x5C, CHR ''t'']
      else if (of_char c :: nat) < 32 \<or> (of_char c :: nat) = 127
        then [CHR 0x5C, CHR ''x''] @ hex2 (of_char c)
      else [c])"

definition repr_str :: "string \<Rightarrow> string" where
  "repr_str s =
     (let q = (if CHR 0x27 \<in> set s \<and> CHR 0x22 \<notin> set s then CHR 0x22 else CHR 0x27)
      in q # concat (map (repr_char q) s) @ [q])"

definition join :: "string \<Rightarrow> string list \<Rightarrow> string" where
  "join sep xs = (case xs of [] \<Rightarrow> [] | y # ys \<Rightarrow> y @ concat (map (\<lambda>z. sep @ z) ys))"

fun py_repr :: "json \<Rightarrow> string" where
  "py_repr JNull = ''None''"
| "py_repr (JBool b) = (if b then ''True'' else ''False'')"
| "py_repr (JInt i) = str_int i"
| "py_repr (JStr s) = repr_str s"
| "py_repr (JList xs) = ''['' @ join '', '' (map py_repr xs) @ '']''"
| "py_repr (JObj kvs) =
     ''{'' @ join '', '' (map (\<lambda>kv. repr_str (fst kv) @ '': '' @ py_repr (snd kv)) kvs) @ ''}''"

definition py_str :: "json \<Rightarrow> string" where
  "py_str j = (case j of JStr s \<Rightarrow> s | _ \<Rightarrow> py_repr j)"

text \<open>\<open>color.lstrip('#')\<close>\<close>

definition lstrip :: "char \<Rightarrow> string \<Rightarrow> string" where
  "lstrip c s = dropWhile (\<lambda>x. x = c) s"

text \<open>\<open>a + b\<close> where \<open>a\<close> is a \<open>str\<close>: the right operand has to be one too.\<close>

definition str_add :: "string \<Rightarrow> json \<Rightarrow> error + string" where
  "str_add a j = (case j of JStr b \<Rightarrow> Inr (a @ b) | _ \<Rightarrow> Inl TypeError)"

text \<open>\<open>s.replace(old, new, 1)\<close>: the first occurrence, if any.\<close>

fun replace_first :: "string \<Rightarrow> string \<Rightarrow> string \<Rightarrow> string" where
  "replace_first old new [] = (if old = [] then new else [])"
| "replace_first old new (c # cs) =
     (if take (length old) (c # cs) = old then new @ drop (length old) (c # cs)
      else c # replace_first old new cs)"

text \<open>\<open>needle in value\<close> for a string needle.\<close>

definition is_substring :: "string \<Rightarrow> string \<Rightarrow> bool" where
  "is_substring n h = list_ex (\<lambda>i. take (length n) (drop i h) = n) [0 ..< Suc (length h)]"

fun py_contains :: "json \<Rightarrow> string \<Rightarrow> error + bool" where
  "py_contains (JObj kvs) k = Inr (k \<in> fst ` set kvs)"
| "py_contains (JList xs) k = Inr (JStr k \<in> set xs)"
| "py_contains (JStr s) k = Inr (is_substring k s)"
| "py_contains JNull k = Inl TypeError"
| "py_contains (JBool b) k = Inl TypeError"
| "py_contains (JInt i) k = Inl TypeError"

text \<open>\<open>b64encode(content.encode()).decode('utf-8')\<close> on a byte string.\<close>

definition b64_char :: "nat \<Rightarrow> char" where
  "b64_char n =
     ''ABCDEFGHIJKLMNOPQRSTUVWXYZabcdefghijklmnopqrstuvwxyz0123456789+/'' ! n"

fun b64_bytes :: "nat list \<Rightarrow> string" where
  "b64_bytes [] = []"
| "b64_bytes [a] = [b64_char (a div 4), b64_char (a mod 4 * 16), CHR ''='', CHR ''='']"
| "b64_bytes [a, b] =
     [b64_char (a div 4), b64_char (a mod 4 * 16 + b div 16), b64_char (b mod 16 * 4),
      CHR ''='']"
| "b64_bytes (a # b # c # r) =
     [b64_char (a div 4), b64_char (a mod 4 * 16 + b div 16),
      b64_char (b mod 16 * 4 + c div 64), b64_char (c mod 64)] @ b64_bytes r"

definition b64encode :: "string \<Rightarrow> string" where
  "b64encode s = b64_bytes (map of_char s)"

text \<open>A loop over a list in which every step may raise or talk to the provider.\<close>

fun io_try_map :: "('a \<Rightarrow> ('o, 's, 'b) act) \<Rightarrow> 'a list \<Rightarrow> ('o, 's, 'b list) act" where
  "io_try_map f [] = io_return []"
| "io_try_map f (x # xs) =
     io_bind (f x) (\<lambda>y. io_bind (io_try_map f xs) (\<lambda>ys. io_return (y # ys)))"

section \<open>Objects handed out by the adapters\<close>

text \<open>
  Modelled from the spec: the entity classes \<open>GitHubCommit\<close>, \<open>GitHubIssue\<close> and
  \<open>GitHubMergeRequest\<close> are not among the sources. An instance is held as its class,
  the token and the identity arguments its constructor was given, and its data cache;
  \<open>from_data\<close> builds the instance and seeds the cache in one step.
\<close>

datatype entity_class = GitHubCommit | GitHubIssue | GitHubMergeRequest

record entity =
  ent_class :: entity_class
  ent_token :: string
  ent_identity :: "json list"
  ent_data :: "json option"

definition new_entity :: "entity_class \<Rightarrow> string \<Rightarrow> json list \<Rightarrow> entity" where
  "new_entity c token ident =
     \<lparr>ent_class = c, ent_token = token, ent_identity = ident, ent_data = None\<rparr>"

definition from_data :: "entity_class \<Rightarrow> json \<Rightarrow> string \<Rightarrow> json list \<Rightarrow> entity" where
  "from_data c payload token ident = (new_entity c token ident)\<lparr>ent_data := Some payload\<rparr>"

text \<open>\<open>GitHubContent.__init__\<close>\<close>

record github_content = igitt_object +
  content_repository :: string

definition GitHubContent_init :: "string \<Rightarrow> string \<Rightarrow> string \<Rightarrow> github_content" where
  "GitHubContent_init token repository path =
     \<lparr>priv_token = token,
      priv_url = ''/repos/'' @ repository @ ''/contents/'' @ path,
      priv_data = None,
      content_repository = repository\<rparr>"

text \<open>The constructor called with values whose types are only known at run time: the
  string concatenations of \<open>__init__\<close> raise \<open>TypeError\<close> on anything but strings.\<close>

definition GitHubContent_new :: "string \<Rightarrow> string option \<Rightarrow> json \<Rightarrow> error + github_content" where
  "GitHubContent_new token repository path =
     (case repository of
        None \<Rightarrow> Inl TypeError
      | Some r \<Rightarrow>
          (case path of JStr p \<Rightarrow> Inr (GitHubContent_init token r p) | _ \<Rightarrow> Inl TypeError))"

section \<open>GitHubRepository\<close>

datatype WebhookEvents =
  PUSH | ISSUE | MERGE_REQUEST | ISSUE_COMMENT | COMMIT_COMMENT | MERGE_REQUEST_COMMENT

fun GH_WEBHOOK_TRANSLATION :: "WebhookEvents \<Rightarrow> string" where
  "GH_WEBHOOK_TRANSLATION PUSH = ''push''"
| "GH_WEBHOOK_TRANSLATION ISSUE = ''issues''"
| "GH_WEBHOOK_TRANSLATION MERGE_REQUEST = ''pull_request''"
| "GH_WEBHOOK_TRANSLATION COMMIT_COMMENT = ''commit_comment''"
| "GH_WEBHOOK_TRANSLATION MERGE_REQUEST_COMMENT = ''issue_comment''"
| "GH_WEBHOOK_TRANSLATION ISSUE_COMMENT = ''issue_comment''"

definition GH_ISSUE_STATE_TRANSLATION :: "string \<Rightarrow> string option" where
  "GH_ISSUE_STATE_TRANSLATION =
     map_of [(''opened'', ''open''), (''closed'', ''closed''), (''all'', ''all'')]"

record github_repository = igitt_object +
  priv_repository :: "string option"

subsection \<open>Construction and identity\<close>

text \<open>The \<open>repository\<close> argument is a \<open>Union[str, int]\<close>.\<close>

datatype repo_arg = RepoStr string | RepoInt int

definition numeric_repository :: "string \<Rightarrow> int \<Rightarrow> github_repository" where
  "numeric_repository token n =
     \<lparr>priv_token = token, priv_url = ''/repositories/'' @ str_int n, priv_data = None,
      priv_repository = None\<rparr>"

definition named_repository :: "string \<Rightarrow> string \<Rightarrow> github_repository" where
  "named_repository token s =
     \<lparr>priv_token = token, priv_url = ''/repos/'' @ s, priv_data = None,
      priv_repository = Some s\<rparr>"

text \<open>\<open>__init__\<close>: \<open>int(repository)\<close> succeeds on every \<open>int\<close> and on the strings
  \<open>py_int_str\<close> accepts; the \<open>ValueError\<close> branch is taken by the other strings.\<close>

fun GitHubRepository_init :: "string \<Rightarrow> repo_arg \<Rightarrow> github_repository" where
  "GitHubRepository_init token (RepoInt n) = numeric_repository token n"
| "GitHubRepository_init token (RepoStr s) =
     (case py_int_str s of
        Some n \<Rightarrow> numeric_repository token n
      | None \<Rightarrow> named_repository token s)"

text \<open>The constructor called on a decoded JSON value: \<open>int\<close> of \<open>None\<close>, a list or a
  dict raises \<open>TypeError\<close>, which \<open>__init__\<close> does not catch.\<close>

fun GitHubRepository_new :: "string \<Rightarrow> json \<Rightarrow> error + github_repository" where
  "GitHubRepository_new token (JStr s) = Inr (GitHubRepository_init token (RepoStr s))"
| "GitHubRepository_new token (JInt n) = Inr (GitHubRepository_init token (RepoInt n))"
| "GitHubRepository_new token (JBool b) =
     Inr (GitHubRepository_init token (RepoInt (if b then 1 else 0)))"
| "GitHubRepository_new token JNull = Inl TypeError"
| "GitHubRepository_new token (JList xs) = Inl TypeError"
| "GitHubRepository_new token (JObj kvs) = Inl TypeError"

definition repo_identifier :: "'s net \<Rightarrow> (github_repository, 's, json) act" where
  "repo_identifier net = io_bind (data net) (\<lambda>d. io_lift (py_getitem d ''id''))"

text \<open>\<open>self._repository or self.data['full_name']\<close>: \<open>None\<close> and the empty string
  are falsy.\<close>

definition full_name :: "'s net \<Rightarrow> (github_repository, 's, json) act" where
  "full_name net = (\<lambda>w.
     (case priv_repository (self w) of
        Some s \<Rightarrow>
          if s \<noteq> [] then (Inr (JStr s), w)
          else io_bind (data net) (\<lambda>d. io_lift (py_getitem d ''full_name'')) w
      | None \<Rightarrow> io_bind (data net) (\<lambda>d. io_lift (py_getitem d ''full_name'')) w))"

subsection \<open>Commits\<close>

text \<open>
  The result is the list of the objects put into the returned set, in the order of the
  provider's listing; the empty set is the empty list. The \<open>try\<close> block covers the
  listing and the construction of every element; the handler reads \<open>ex.args[1]\<close>.
\<close>

definition commits_body :: "'s net \<Rightarrow> (github_repository, 's, entity list) act" where
  "commits_body net = (\<lambda>w.
     io_bind (get net (priv_token (self w)) (priv_url (self w) @ ''/commits'') None)
       (\<lambda>r. io_bind (io_lift (py_iter r))
          (io_try_map (\<lambda>commit.
             io_bind (full_name net)
               (\<lambda>fn. (\<lambda>w'. io_lift
                  (try_bind (py_getitem commit ''sha'')
                     (\<lambda>sha. Inr (from_data GitHubCommit commit (priv_token (self w'))
                                     [fn, sha]))) w'))))) w)"

definition commits :: "'s net \<Rightarrow> (github_repository, 's, entity list) act" where
  "commits net = (\<lambda>w.
     (case commits_body net w of
        (Inl (RuntimeError args), w') \<Rightarrow>
          (case args of
             a # status # rest \<Rightarrow>
               if status = JInt 409 then (Inr [], w') else (Inl (RuntimeError args), w')
           | _ \<Rightarrow> (Inl IndexError, w'))
      | r \<Rightarrow> r))"

definition clone_url :: "'s net \<Rightarrow> (github_repository, 's, string) act" where
  "clone_url net =
     io_bind (data net)
       (\<lambda>d. (\<lambda>w. io_lift
          (try_bind (py_getitem d ''clone_url'')
             (\<lambda>u. case u of
                JStr s \<Rightarrow>
                  Inr (replace_first ''github.com'' (priv_token (self w) @ ''@github.com'') s)
              | _ \<Rightarrow> Inl AttributeError)) w))"

subsection \<open>Labels\<close>

definition get_labels :: "'s net \<Rightarrow> (github_repository, 's, pykey set) act" where
  "get_labels net = (\<lambda>w.
     io_bind (get net (priv_token (self w)) (priv_url (self w) @ ''/labels'') None)
       (\<lambda>r. io_lift
          (try_bind (py_iter r)
            (\<lambda>labels. try_bind
               (try_map (\<lambda>label. try_bind (py_getitem label ''name'') py_key) labels)
               (\<lambda>names. Inr (set names))))) w)"

definition create_label :: "'s net \<Rightarrow> string \<Rightarrow> string \<Rightarrow> (github_repository, 's, unit) act" where
  "create_label net name color =
     io_bind (get_labels net)
       (\<lambda>labels.
          if KStr name \<in> labels
          then io_raise (ElementAlreadyExistsError (name @ '' already exists.''))
          else (\<lambda>w.
            io_bind
              (post net (priv_token (self w)) (priv_url (self w) @ ''/labels'')
                 (JObj [(''name'', JStr name), (''color'', JStr (lstrip CHR ''#'' color))]))
              set_data w))"

definition delete_label :: "'s net \<Rightarrow> string \<Rightarrow> (github_repository, 's, unit) act" where
  "delete_label net name =
     io_bind (get_labels net)
       (\<lambda>labels.
          if KStr name \<notin> labels
          then io_raise (ElementDoesntExistError (name @ '' doesnt exist.''))
          else (\<lambda>w.
            io_bind
              (delete net (priv_token (self w)) (priv_url (self w) @ ''/labels/'' @ name) None)
              (\<lambda>r. io_return ()) w))"

subsection \<open>Issues and merge requests by number\<close>

definition get_issue :: "'s net \<Rightarrow> json \<Rightarrow> (github_repository, 's, entity) act" where
  "get_issue net issue_number =
     io_bind (full_name net)
       (\<lambda>fn. (\<lambda>w. (Inr (new_entity GitHubIssue (priv_token (self w)) [fn, issue_number]), w)))"

definition get_mr :: "'s net \<Rightarrow> json \<Rightarrow> (github_repository, 's, entity) act" where
  "get_mr net mr_number =
     io_bind (full_name net)
       (\<lambda>fn. (\<lambda>w. (Inr (new_entity GitHubMergeRequest (priv_token (self w)) [fn, mr_number]), w)))"

subsection \<open>Webhooks\<close>

definition hooks :: "'s net \<Rightarrow> (github_repository, 's, pykey set) act" where
  "hooks net = (\<lambda>w.
     io_bind (get net (priv_token (self w)) (priv_url (self w) @ ''/hooks'') None)
       (\<lambda>hs. io_lift
          (try_bind (py_iter hs)
            (\<lambda>hook_list. try_bind
               (try_map
                  (\<lambda>hook. try_bind (py_getitem hook ''config'')
                     (\<lambda>config. try_bind (py_dict_get config ''url'') py_key)) hook_list)
               (\<lambda>results. Inr (set results - {KNone}))))) w)"

text \<open>\<open>secret\<close> and \<open>events\<close> default to \<open>None\<close>; \<open>events\<close> is given as the list of
  its members in iteration order.\<close>

definition register_hook :: "'s net \<Rightarrow> string \<Rightarrow> string option \<Rightarrow> WebhookEvents list option \<Rightarrow>
    (github_repository, 's, unit) act" where
  "register_hook net url secret events =
     io_bind (hooks net)
       (\<lambda>registered.
          if KStr url \<in> registered then io_return ()
          else
            (let config = [(''url'', JStr url), (''content_type'', JStr ''json'')];
                 config = (case secret of
                             Some s \<Rightarrow> if s \<noteq> [] then config @ [(''secret'', JStr s)] else config
                           | None \<Rightarrow> config);
                 reg_events = (case events of
                                 Some es \<Rightarrow> if es \<noteq> [] then map GH_WEBHOOK_TRANSLATION es else []
                               | None \<Rightarrow> [])
             in (\<lambda>w.
               io_bind
                 (post net (priv_token (self w)) (priv_url (self w) @ ''/hooks'')
                    (JObj [(''name'', JStr ''web''), (''active'', JBool True),
                           (''config'', JObj config),
                           (''events'', JList (map JStr
                              (if length reg_events \<noteq> 0 then reg_events else [''*''])))]))
                 set_data w)))"

fun delete_hook_loop :: "'s net \<Rightarrow> string \<Rightarrow> string \<Rightarrow> json list \<Rightarrow>
    (github_repository, 's, unit) act" where
  "delete_hook_loop net hook_url url [] = io_return ()"
| "delete_hook_loop net hook_url url (hook # rest) =
     io_bind
       (io_lift (try_bind (py_getitem hook ''config'') (\<lambda>config. py_dict_get config ''url'')))
       (\<lambda>u. if u = JStr url
          then io_bind (io_lift (py_getitem hook ''id''))
                 (\<lambda>i. (\<lambda>w.
                    io_bind
                      (delete net (priv_token (self w)) (hook_url @ ''/'' @ py_str i) None)
                      (\<lambda>r. delete_hook_loop net hook_url url rest) w))
          else delete_hook_loop net hook_url url rest)"

definition delete_hook :: "'s net \<Rightarrow> string \<Rightarrow> (github_repository, 's, unit) act" where
  "delete_hook net url = (\<lambda>w.
     (let hook_url = priv_url (self w) @ ''/hooks''
      in io_bind (get net (priv_token (self w)) hook_url None)
           (\<lambda>hs. io_bind (io_lift (py_iter hs)) (delete_hook_loop net hook_url url)) w))"

subsection \<open>Listings\<close>

definition merge_requests :: "'s net \<Rightarrow> (github_repository, 's, entity list) act" where
  "merge_requests net = (\<lambda>w.
     io_bind (get net (priv_token (self w)) (priv_url (self w) @ ''/pulls'') None)
       (\<lambda>r. io_bind (io_lift (py_iter r))
          (io_try_map (\<lambda>res.
             io_bind (full_name net)
               (\<lambda>fn. (\<lambda>w'. io_lift
                  (try_bind (py_getitem res ''number'')
                     (\<lambda>n. Inr (new_entity GitHubMergeRequest (priv_token (self w')) [fn, n])))
                  w'))))) w)"

text \<open>The comprehension's filter \<open>'pull_request' not in res\<close> runs before the element
  is built; the elements skipped are left out of the result.\<close>

definition filter_issues :: "'s net \<Rightarrow> string \<Rightarrow> (github_repository, 's, entity list) act" where
  "filter_issues net state = (\<lambda>w.
     (case GH_ISSUE_STATE_TRANSLATION state of
        None \<Rightarrow> (Inl KeyError, w)
      | Some st \<Rightarrow>
          io_bind
            (get net (priv_token (self w)) (priv_url (self w) @ ''/issues'')
               (Some (JObj [(''state'', JStr st)])))
            (\<lambda>r. io_bind (io_lift (py_iter r))
               (\<lambda>rs. io_bind
                  (io_try_map (\<lambda>res.
                     io_bind (io_lift (py_contains res ''pull_request''))
                       (\<lambda>is_pr.
                          if is_pr then io_return None
                          else io_bind (full_name net)
                            (\<lambda>fn. (\<lambda>w'. io_lift
                               (try_bind (py_getitem res ''number'')
                                  (\<lambda>n. Inr (Some (from_data GitHubIssue res
                                                     (priv_token (self w')) [fn, n])))) w'))))
                     rs)
                  (\<lambda>found. io_return (List.map_filter id found)))) w))"

definition issues :: "'s net \<Rightarrow> (github_repository, 's, entity list) act" where
  "issues net = filter_issues net ''opened''"

subsection \<open>Forks, deletion, merge requests and files\<close>

text \<open>
  Modelled from the spec: \<open>IGitt.Utils.eliminate_none\<close> is not among the sources and the
  spec does not describe it; going by its name and its use it drops the entries of a dict
  whose value is \<open>None\<close>.
\<close>

definition eliminate_none :: "(string \<times> json) list \<Rightarrow> (string \<times> json) list" where
  "eliminate_none kvs = filter (\<lambda>kv. snd kv \<noteq> JNull) kvs"

definition opt_str :: "string option \<Rightarrow> json" where
  "opt_str v = (case v of None \<Rightarrow> JNull | Some s \<Rightarrow> JStr s)"

definition create_fork :: "'s net \<Rightarrow> string option \<Rightarrow>
    (github_repository, 's, github_repository) act" where
  "create_fork net organization = (\<lambda>w.
     (let url = priv_url (self w) @ ''/forks'';
          d = eliminate_none [(''organization'', opt_str organization)]
      in io_bind (post net (priv_token (self w)) url (JObj d))
           (\<lambda>response. (\<lambda>w'. io_lift
              (try_bind (py_getitem response ''full_name'')
                 (GitHubRepository_new (priv_token (self w')))) w')) w))"

definition repo_delete :: "'s net \<Rightarrow> (github_repository, 's, unit) act" where
  "repo_delete net = (\<lambda>w.
     io_bind (delete net (priv_token (self w)) (priv_url (self w)) None)
       (\<lambda>r. io_return ()) w)"

definition create_merge_request :: "'s net \<Rightarrow> string \<Rightarrow> string \<Rightarrow> string \<Rightarrow> string option \<Rightarrow>
    (github_repository, 's, entity) act" where
  "create_merge_request net title base head body = (\<lambda>w.
     (let d = [(''title'', JStr title), (''body'', opt_str body), (''base'', JStr base),
               (''head'', JStr head)];
          url = priv_url (self w) @ ''/pulls''
      in io_bind (post net (priv_token (self w)) url (JObj d))
           (\<lambda>json. (\<lambda>w'. io_lift
              (try_bind (py_getitem json ''base'')
                 (\<lambda>b. try_bind (py_getitem b ''repo'')
                    (\<lambda>r. try_bind (py_getitem r ''full_name'')
                       (\<lambda>fn. try_bind (py_getitem json ''number'')
                          (\<lambda>n. Inr (new_entity GitHubMergeRequest (priv_token (self w'))
                                       [fn, n])))))) w')) w))"

definition create_file :: "'s net \<Rightarrow> string \<Rightarrow> string \<Rightarrow> string \<Rightarrow> string option \<Rightarrow>
    (github_repository, 's, github_content) act" where
  "create_file net path message content branch = (\<lambda>w.
     (let url = priv_url (self w) @ ''/contents/'' @ path;
          content = b64encode content;
          d = [(''path'', JStr path), (''message'', JStr message), (''content'', JStr content),
               (''branch'', opt_str branch)]
      in io_bind (put net (priv_token (self w)) url (JObj d))
           (\<lambda>json. (\<lambda>w'. io_lift
              (try_bind (py_getitem json ''content'')
                 (\<lambda>c. try_bind (py_getitem c ''path'')
                    (GitHubContent_new (priv_token (self w')) (priv_repository (self w')))))
              w')) w))"

subsection \<open>Search\<close>

text \<open>
  A date filter is \<open>None\<close> where the caller leaves the default \<open>''\<close> and \<open>Some d\<close>
  for a \<open>datetime\<close> \<open>d\<close>, which is always truthy; \<open>strftime\<close> stands for
  \<open>d.strftime('%Y-%m-%dT%H:%M:%SZ')\<close>. The first statement concatenates
  \<open>self._repository\<close> to a string, which raises \<open>TypeError\<close> on \<open>None\<close>.
\<close>

definition priv_search :: "'s net \<Rightarrow> ('d \<Rightarrow> string) \<Rightarrow> string \<Rightarrow>
    'd option \<Rightarrow> 'd option \<Rightarrow> 'd option \<Rightarrow> 'd option \<Rightarrow> (github_repository, 's, json) act" where
  "priv_search net strftime issue_type created_after created_before updated_after
      updated_before = (\<lambda>w.
     (case priv_repository (self w) of
        None \<Rightarrow> (Inl TypeError, w)
      | Some repository \<Rightarrow>
          (let query = '' type:'' @ issue_type @ '' state:open repo:'' @ repository
           in if (created_after \<noteq> None \<and> created_before \<noteq> None)
                 \<or> (updated_after \<noteq> None \<and> updated_before \<noteq> None)
              then (Inl (RuntimeError
                      [JStr ''Cannot process before and after date simultaneously'']), w)
              else
                (let query = query @
                       (case created_after of
                          Some d \<Rightarrow> '' created:>='' @ strftime d
                        | None \<Rightarrow>
                            (case created_before of
                               Some d \<Rightarrow> '' created:<'' @ strftime d
                             | None \<Rightarrow> []));
                     query = query @
                       (case updated_after of
                          Some d \<Rightarrow> '' updated:>='' @ strftime d
                        | None \<Rightarrow>
                            (case updated_before of
                               Some d \<Rightarrow> '' updated:<'' @ strftime d
                             | None \<Rightarrow> []))
                 in get net (priv_token (self w)) ''/search/issues''
                      (Some (JObj [(''q'', JStr query), (''per_page'', JStr ''100'')])) w))))"

text \<open>\<open>search_mrs\<close> and \<open>search_issues\<close> are generators: nothing of the body runs
  before the first element is asked for. The model is the generator consumed to its end:
  the list of the objects yielded, or the exception that ends the iteration.\<close>

definition search_mrs :: "'s net \<Rightarrow> ('d \<Rightarrow> string) \<Rightarrow>
    'd option \<Rightarrow> 'd option \<Rightarrow> 'd option \<Rightarrow> 'd option \<Rightarrow>
    (github_repository, 's, entity list) act" where
  "search_mrs net strftime created_after created_before updated_after updated_before =
     io_bind
       (priv_search net strftime ''pr'' created_after created_before updated_after
          updated_before)
       (\<lambda>resp. io_bind (io_lift (py_iter resp))
          (io_try_map (\<lambda>pr_data.
             io_bind (io_lift (py_getitem pr_data ''number''))
               (\<lambda>n. io_bind (get_mr net n)
                  (\<lambda>pull_request. io_return (pull_request\<lparr>ent_data := Some pr_data\<rparr>))))))"

definition search_issues :: "'s net \<Rightarrow> ('d \<Rightarrow> string) \<Rightarrow>
    'd option \<Rightarrow> 'd option \<Rightarrow> 'd option \<Rightarrow> 'd option \<Rightarrow>
    (github_repository, 's, entity list) act" where
  "search_issues net strftime created_after created_before updated_after updated_before =
     io_bind
       (priv_search net strftime ''issue'' created_after created_before updated_after
          updated_before)
       (\<lambda>resp. io_bind (io_lift (py_iter resp))
          (io_try_map (\<lambda>issue_data.
             io_bind (io_lift (py_getitem issue_data ''number''))
               (\<lambda>n. io_bind (get_issue net n)
                  (\<lambda>issue. io_return (issue\<lparr>ent_data := Some issue_data\<rparr>))))))"

section \<open>GitLabCommit\<close>

text \<open>\<open>urllib.parse.quote_plus\<close> on a byte string: letters, digits and \<open>_.-~\<close> stay, a
  space becomes \<open>+\<close>, every other byte is percent-encoded with upper-case hex digits.\<close>

definition is_unreserved :: "char \<Rightarrow> bool" where
  "is_unreserved c =
     (c \<in> set ''ABCDEFGHIJKLMNOPQRSTUVWXYZabcdefghijklmnopqrstuvwxyz0123456789_.-~'')"

definition quote_char :: "char \<Rightarrow> string" where
  "quote_char c =
     (if is_unreserved c then [c]
      else if c = CHR '' '' then ''+''
      else [CHR ''%'', ''0123456789ABCDEF'' ! (of_char c div 16),
            ''0123456789ABCDEF'' ! (of_char c mod 16)])"

definition quote_plus :: "string \<Rightarrow> string" where
  "quote_plus s = concat (map quote_char s)"

datatype Status = RUNNING | CANCELED | FAILED | PENDING | SUCCESS

fun GL_STATE_TRANSLATION :: "Status \<Rightarrow> string" where
  "GL_STATE_TRANSLATION RUNNING = ''running''"
| "GL_STATE_TRANSLATION CANCELED = ''canceled''"
| "GL_STATE_TRANSLATION FAILED = ''failed''"
| "GL_STATE_TRANSLATION PENDING = ''pending''"
| "GL_STATE_TRANSLATION SUCCESS = ''success''"


text \<open>
  Modelled from the spec: \<open>IGitt.Interfaces.CommitStatus\<close> is not among the sources. A
  \<open>CommitStatus\<close> holds the four attributes \<open>set_status\<close> reads, given to the
  constructor in the order state, description, context, URL; instances compare by
  identity, so every object added to a set stays in it.
\<close>

record CommitStatus =
  cs_status :: Status
  cs_description :: json
  cs_context :: json
  cs_url :: json

record gitlab_commit = igitt_object +
  commit_repository :: string
  priv_sha :: "string option"
  priv_branch :: "string option"

definition truthy :: "string option \<Rightarrow> bool" where
  "truthy v = (case v of None \<Rightarrow> False | Some s \<Rightarrow> s \<noteq> [])"

definition GitLabCommit_init :: "string \<Rightarrow> string \<Rightarrow> string option \<Rightarrow> string option \<Rightarrow>
    error + gitlab_commit" where
  "GitLabCommit_init oauth_token repository sha branch =
     (if \<not> (truthy sha \<or> truthy branch) then Inl AssertionError
      else Inr
        \<lparr>priv_token = oauth_token,
         priv_url = ''/projects/'' @ quote_plus repository @ ''/repository/commits/'' @
           (case (if truthy sha then sha else branch) of Some s \<Rightarrow> s | None \<Rightarrow> ''None''),
         priv_data = None,
         commit_repository = repository,
         priv_sha = sha,
         priv_branch = branch\<rparr>)"

definition sha :: "'s net \<Rightarrow> (gitlab_commit, 's, json) act" where
  "sha net = (\<lambda>w.
     if truthy (priv_sha (self w))
     then (Inr (opt_str (priv_sha (self w))), w)
     else io_bind (data net) (\<lambda>d. io_lift (py_getitem d ''id'')) w)"

subsection \<open>Statuses\<close>




definition set_status :: "'s net \<Rightarrow> CommitStatus \<Rightarrow> (gitlab_commit, 's, unit) act" where
  "set_status net status = (\<lambda>w.
     (let d = [(''state'', JStr (GL_STATE_TRANSLATION (cs_status status))),
               (''target_url'', cs_url status), (''description'', cs_description status),
               (''name'', cs_context status)]
      in io_bind (sha net)
           (\<lambda>full_sha. (\<lambda>w'.
              io_bind
                (post net (priv_token (self w'))
                   (''/projects/'' @ quote_plus (commit_repository (self w)) @ ''/statuses/'' @
                    py_str full_sha) (JObj d))
                (\<lambda>r. io_return ()) w')) w))"

subsection \<open>Patches and comments\<close>

fun patch_loop :: "string \<Rightarrow> json list \<Rightarrow> error + json" where
  "patch_loop filename [] = Inl (ElementDoesntExistError ''The file does not exist.'')"
| "patch_loop filename (patch # rest) =
     (case try_bind (py_getitem patch ''new_path'')
             (\<lambda>new_path. try_bind (py_getitem patch ''old_path'')
                (\<lambda>old_path. Inr (JStr filename = new_path \<or> JStr filename = old_path))) of
        Inl e \<Rightarrow> Inl e
      | Inr found \<Rightarrow>
          if found then py_getitem patch ''diff'' else patch_loop filename rest)"

definition get_patch_for_file :: "'s net \<Rightarrow> string \<Rightarrow> (gitlab_commit, 's, json) act" where
  "get_patch_for_file net filename = (\<lambda>w.
     io_bind (get net (priv_token (self w)) (priv_url (self w) @ ''/diff'') None)
       (\<lambda>diff. io_lift (try_bind (py_iter diff) (patch_loop filename))) w)"

text \<open>
  \<open>get_diff_index\<close> of \<open>IGitt.GitHub.GitHubCommit\<close> is not among the sources; it is a
  parameter of \<open>comment\<close>: given the patch and the line it returns the position of the
  line in the patch, or \<open>None\<close> when the line is not part of it. The \<open>try\<close> block covers
  the patch lookup and the index computation and catches \<open>ElementDoesntExistError\<close>
  only; \<open>if index\<close> is false for \<open>None\<close> and for \<open>0\<close>.
\<close>

definition inline_position :: "'s net \<Rightarrow> (json \<Rightarrow> int \<Rightarrow> error + int option) \<Rightarrow>
    (string \<times> json) list \<Rightarrow> string \<Rightarrow> int \<Rightarrow> (gitlab_commit, 's, (string \<times> json) list) act" where
  "inline_position net get_diff_index d file line = (\<lambda>w.
     (case io_bind (get_patch_for_file net file)
             (\<lambda>patch. io_lift
                (try_bind (get_diff_index patch line)
                   (\<lambda>index. Inr
                      (case index of
                         None \<Rightarrow> d
                       | Some i \<Rightarrow>
                           if i \<noteq> 0
                           then dict_set (dict_set d ''line'' (JInt i)) ''path'' (JStr file)
                           else d)))) w of
        (Inl (ElementDoesntExistError m), w') \<Rightarrow> (Inr d, w')
      | r \<Rightarrow> r))"

definition fallback_note :: "'s net \<Rightarrow> (string \<times> json) list \<Rightarrow> string option \<Rightarrow> int option \<Rightarrow>
    (gitlab_commit, 's, (string \<times> json) list) act" where
  "fallback_note net d file line =
     (let file_str = (case file of None \<Rightarrow> [] | Some f \<Rightarrow> '', file '' @ f);
          line_str = (case line of None \<Rightarrow> [] | Some l \<Rightarrow> '', line '' @ str_int l)
      in io_bind (sha net)
           (\<lambda>s. io_lift
              (try_bind (str_add ''Comment on '' s)
                 (\<lambda>t. try_bind (py_getitem (JObj d) ''note'')
                    (\<lambda>note. try_bind
                       (str_add (t @ file_str @ line_str @ [CHR ''.'', CHR 0x0A, CHR 0x0A]) note)
                       (\<lambda>body. Inr (dict_set d ''note'' (JStr body))))))))"

definition comment :: "'s net \<Rightarrow> (json \<Rightarrow> int \<Rightarrow> error + int option) \<Rightarrow>
    string \<Rightarrow> string option \<Rightarrow> int option \<Rightarrow> int option \<Rightarrow> (gitlab_commit, 's, unit) act" where
  "comment net get_diff_index message file line mr_number =
     (let d = [(''note'', JStr message), (''line_type'', JStr ''new'')]
      in io_bind
           (case file of
              None \<Rightarrow> io_return d
            | Some f \<Rightarrow>
                (case line of
                   None \<Rightarrow> io_return d
                 | Some l \<Rightarrow> inline_position net get_diff_index d f l))
           (\<lambda>d. io_bind
              (if ''line'' \<notin> fst ` set d then fallback_note net d file line else io_return d)
              (\<lambda>d. (\<lambda>w.
                 (case mr_number of
                    None \<Rightarrow>
                      io_bind
                        (post net (priv_token (self w)) (priv_url (self w) @ ''/comments'')
                           (JObj d))
                        (\<lambda>r. io_return ()) w
                  | Some n \<Rightarrow>
                      io_bind (io_lift (py_getitem (JObj d) ''note''))
                        (\<lambda>note.
                           io_bind
                             (post net (priv_token (self w))
                                (''/projects/'' @ quote_plus (commit_repository (self w)) @
                                 ''/merge_requests/'' @ str_int n @ ''/notes'')
                                (JObj (dict_set d ''body'' note)))
                             (\<lambda>r. io_return ())) w)))))"

section \<open>GitHubContent\<close>

definition get_content :: "'s net \<Rightarrow> string \<Rightarrow> (github_content, 's, unit) act" where
  "get_content net ref = (\<lambda>w.
     (let d = [(''path'', JStr (priv_url (self w))), (''ref'', JStr ref)]
      in io_bind (get net (priv_token (self w)) (priv_url (self w)) (Some (JObj d)))
           set_data w))"

definition content_delete :: "'s net \<Rightarrow> string \<Rightarrow> string option \<Rightarrow> (github_content, 's, unit) act" where
  "content_delete net message branch =
     (let branch = (case branch of None \<Rightarrow> ''master'' | Some b \<Rightarrow> b)
      in io_bind (data net)
           (\<lambda>snapshot. io_bind (io_lift (py_getitem snapshot ''sha''))
              (\<lambda>file_sha. (\<lambda>w.
                 (let d = [(''path'', JStr (priv_url (self w))), (''message'', JStr message),
                           (''sha'', file_sha), (''branch'', JStr branch)]
                  in io_bind
                       (delete net (priv_token (self w)) (priv_url (self w)) (Some (JObj d)))
                       (\<lambda>r. io_return ()) w)))))"

definition content_update :: "'s net \<Rightarrow> string \<Rightarrow> string \<Rightarrow> string option \<Rightarrow>
    (github_content, 's, unit) act" where
  "content_update net message content branch =
     (let content = b64encode content;
          branch = (case branch of None \<Rightarrow> ''master'' | Some b \<Rightarrow> b)
      in io_bind (data net)
           (\<lambda>snapshot. io_bind (io_lift (py_getitem snapshot ''sha''))
              (\<lambda>file_sha. (\<lambda>w.
                 (let d = [(''path'', JStr (priv_url (self w))), (''message'', JStr message),
                           (''sha'', file_sha), (''branch'', JStr branch),
                           (''content'', JStr content)]
                  in io_bind
                       (put net (priv_token (self w)) (priv_url (self w)) (JObj d))
                       (\<lambda>r. io_return ()) w)))))"

section \<open>Providers to run the adapters against\<close>

text \<open>A recorded conversation: every request is answered with the next reply of the
  recording, whatever it asks; a request beyond the recording fails.\<close>

definition replay :: "http_reply list net" where
  "replay rs rq = (case rs of [] \<Rightarrow> (Failed [] 500, []) | r # rest \<Rightarrow> (r, rest))"

text \<open>A store of webhooks: the listing returns the records, a POST appends a record
  with a fresh id and the posted \<open>config\<close>, a DELETE drops the records whose id ends
  the URL.\<close>

definition ends_with :: "string \<Rightarrow> string \<Rightarrow> bool" where
  "ends_with u sfx = (drop (length u - length sfx) u = sfx)"

definition hook_record :: "json list \<Rightarrow> json \<Rightarrow> json" where
  "hook_record hs payload =
     JObj [(''id'', JInt (int (length hs) + 1)),
           (''config'', (case py_getitem payload ''config'' of Inr c \<Rightarrow> c | Inl e \<Rightarrow> JObj []))]"

definition hook_store :: "json list net" where
  "hook_store hs rq =
     (case req_method rq of
        GET \<Rightarrow> (Ok (JList hs), hs)
      | POST \<Rightarrow>
          (case req_payload rq of
             None \<Rightarrow> (Failed ''no payload'' 422, hs)
           | Some p \<Rightarrow> (Ok (hook_record hs p), hs @ [hook_record hs p]))
      | PUT \<Rightarrow> (Failed ''not allowed'' 405, hs)
      | DELETE \<Rightarrow>
          (Ok JNull,
           filter (\<lambda>h. \<not> (case py_getitem h ''id'' of
                             Inr i \<Rightarrow> ends_with (req_url rq) (''/'' @ py_str i)
                           | Inl e \<Rightarrow> False)) hs))"

definition start :: "'o \<Rightarrow> 's \<Rightarrow> ('o, 's) world" where
  "start obj s = \<lparr>self = obj, server = s, trace = []\<rparr>"

text \<open>The requests of a run, without the replies.\<close>

definition requests :: "('o, 's) world \<Rightarrow> request list" where
  "requests w = map fst (trace w)"

section \<open>Notions the theorems are stated with\<close>

text \<open>What \<open>hook['config'].get('url')\<close> evaluates to.\<close>

definition configured_url :: "json \<Rightarrow> error + json" where
  "configured_url hook =
     try_bind (py_getitem hook ''config'') (\<lambda>config. py_dict_get config ''url'')"

definition hook_id_str :: "json \<Rightarrow> string" where
  "hook_id_str hook = (case py_getitem hook ''id'' of Inr i \<Rightarrow> py_str i | Inl e \<Rightarrow> [])"




text \<open>The body of a comment that could not be placed on its line.\<close>

definition fallback_body :: "string \<Rightarrow> string \<Rightarrow> string \<Rightarrow> int \<Rightarrow> string" where
  "fallback_body commit_sha message file line =
     ''Comment on '' @ commit_sha @ '', file '' @ file @ '', line '' @ str_int line @
     [CHR ''.'', CHR 0x0A, CHR 0x0A] @ message"

text \<open>
  A run from the world \<open>w\<close> propagates failures when every non-2xx answer among the
  exchanges it added ends it with the runtime failure carrying that body and status. An
  operation propagates failures when all its runs do.
\<close>

definition propagating :: "('o, 's) world \<Rightarrow> (error + 'a) \<times> ('o, 's) world \<Rightarrow> bool" where
  "propagating w run =
     (\<exists>new. trace (snd run) = trace w @ new \<and>
        (\<forall>x \<in> set new. \<forall>b c. snd x = Failed b c \<longrightarrow>
           fst run = Inl (RuntimeError [JStr b, JInt c])))"

definition propagates :: "('o, 's, 'a) act \<Rightarrow> bool" where
  "propagates m = (\<forall>w. propagating w (m w))"

subsection \<open>The requests the operations issue\<close>

definition labels_request :: "github_repository \<Rightarrow> request" where
  "labels_request r =
     \<lparr>req_method = GET, req_token = priv_token r, req_url = priv_url r @ ''/labels'',
      req_payload = None\<rparr>"

definition delete_label_request :: "github_repository \<Rightarrow> string \<Rightarrow> request" where
  "delete_label_request r name =
     \<lparr>req_method = DELETE, req_token = priv_token r,
      req_url = priv_url r @ ''/labels/'' @ name, req_payload = None\<rparr>"

definition create_label_request :: "github_repository \<Rightarrow> string \<Rightarrow> string \<Rightarrow> request" where
  "create_label_request r name color =
     \<lparr>req_method = POST, req_token = priv_token r, req_url = priv_url r @ ''/labels'',
      req_payload = Some (JObj [(''name'', JStr name),
                                (''color'', JStr (lstrip CHR ''#'' color))])\<rparr>"

definition data_request :: "'a igitt_object_scheme \<Rightarrow> request" where
  "data_request r =
     \<lparr>req_method = GET, req_token = priv_token r, req_url = priv_url r, req_payload = None\<rparr>"

definition get_content_request :: "github_content \<Rightarrow> string \<Rightarrow> request" where
  "get_content_request c ref =
     \<lparr>req_method = GET, req_token = priv_token c, req_url = priv_url c,
      req_payload = Some (JObj [(''path'', JStr (priv_url c)), (''ref'', JStr ref)])\<rparr>"

definition content_delete_request :: "github_content \<Rightarrow> string \<Rightarrow> string option \<Rightarrow> json \<Rightarrow> request" where
  "content_delete_request c message branch file_sha =
     \<lparr>req_method = DELETE, req_token = priv_token c, req_url = priv_url c,
      req_payload = Some (JObj [(''path'', JStr (priv_url c)), (''message'', JStr message),
        (''sha'', file_sha),
        (''branch'', JStr (case branch of None \<Rightarrow> ''master'' | Some b \<Rightarrow> b))])\<rparr>"

definition content_update_request :: "github_content \<Rightarrow> string \<Rightarrow> string \<Rightarrow> string option \<Rightarrow> json \<Rightarrow>
    request" where
  "content_update_request c message content branch file_sha =
     \<lparr>req_method = PUT, req_token = priv_token c, req_url = priv_url c,
      req_payload = Some (JObj [(''path'', JStr (priv_url c)), (''message'', JStr message),
        (''sha'', file_sha),
        (''branch'', JStr (case branch of None \<Rightarrow> ''master'' | Some b \<Rightarrow> b)),
        (''content'', JStr (b64encode content))])\<rparr>"

definition hooks_request :: "github_repository \<Rightarrow> request" where
  "hooks_request r =
     \<lparr>req_method = GET, req_token = priv_token r, req_url = priv_url r @ ''/hooks'',
      req_payload = None\<rparr>"

definition hook_payload :: "string \<Rightarrow> string option \<Rightarrow> WebhookEvents list option \<Rightarrow> json" where
  "hook_payload url secret events =
     JObj [(''name'', JStr ''web''), (''active'', JBool True),
           (''config'', JObj ([(''url'', JStr url), (''content_type'', JStr ''json'')] @
              (case secret of
                 Some s \<Rightarrow> if s \<noteq> [] then [(''secret'', JStr s)] else []
               | None \<Rightarrow> []))),
           (''events'', JList (map JStr
              (case events of
                 Some es \<Rightarrow> if es \<noteq> [] then map GH_WEBHOOK_TRANSLATION es else [''*'']
               | None \<Rightarrow> [''*''])))]"

definition register_hook_request :: "github_repository \<Rightarrow> string \<Rightarrow> string option \<Rightarrow>
    WebhookEvents list option \<Rightarrow> request" where
  "register_hook_request r url secret events =
     \<lparr>req_method = POST, req_token = priv_token r, req_url = priv_url r @ ''/hooks'',
      req_payload = Some (hook_payload url secret events)\<rparr>"

definition delete_hook_request :: "github_repository \<Rightarrow> json \<Rightarrow> request" where
  "delete_hook_request r hook =
     \<lparr>req_method = DELETE, req_token = priv_token r,
      req_url = priv_url r @ ''/hooks'' @ ''/'' @ hook_id_str hook, req_payload = None\<rparr>"


definition diff_request :: "gitlab_commit \<Rightarrow> request" where
  "diff_request c =
     \<lparr>req_method = GET, req_token = priv_token c, req_url = priv_url c @ ''/diff'',
      req_payload = None\<rparr>"

definition general_comment_request :: "gitlab_commit \<Rightarrow> string \<Rightarrow> request" where
  "general_comment_request c body =
     \<lparr>req_method = POST, req_token = priv_token c, req_url = priv_url c @ ''/comments'',
      req_payload = Some (JObj [(''note'', JStr body), (''line_type'', JStr ''new'')])\<rparr>"

definition mr_note_request :: "gitlab_commit \<Rightarrow> int \<Rightarrow> string \<Rightarrow> request" where
  "mr_note_request c mr_number body =
     \<lparr>req_method = POST, req_token = priv_token c,
      req_url = ''/projects/'' @ quote_plus (commit_repository c) @ ''/merge_requests/'' @
                str_int mr_number @ ''/notes'',
      req_payload = Some (JObj [(''note'', JStr body), (''line_type'', JStr ''new''),
                                (''body'', JStr body)])\<rparr>"

definition fallback_request :: "gitlab_commit \<Rightarrow> int option \<Rightarrow> string \<Rightarrow> request" where
  "fallback_request c mr_number body =
     (case mr_number of
        None \<Rightarrow> general_comment_request c body
      | Some n \<Rightarrow> mr_note_request c n body)"

definition commits_request :: "github_repository \<Rightarrow> request" where
  "commits_request r =
     \<lparr>req_method = GET, req_token = priv_token r, req_url = priv_url r @ ''/commits'',
      req_payload = None\<rparr>"

subsection \<open>Objects, payloads and worlds to run the operations on\<close>

definition labels_abc :: json where
  "labels_abc = JList [JObj [(''name'', JStr ''a'')], JObj [(''name'', JStr ''b'')],
                       JObj [(''name'', JStr ''c'')]]"

definition test_repo :: github_repository where
  "test_repo = GitHubRepository_init ''token'' (RepoStr ''gitmate-test-user/test'')"

definition listed :: "(github_repository, http_reply list) world" where
  "listed = \<lparr>self = test_repo, server = [],
             trace = [(labels_request test_repo, Ok labels_abc)]\<rparr>"

definition numbered_repo :: github_repository where
  "numbered_repo = GitHubRepository_init ''token'' (RepoInt 42)"

definition repo_payload :: json where
  "repo_payload = JObj [(''id'', JInt 42), (''full_name'', JStr ''gitmate-test-user/test'')]"

definition readme :: github_content where
  "readme = GitHubContent_init ''token'' ''gitmate-test-user/test'' ''README.md''"

definition readme_payload :: json where
  "readme_payload = JObj [(''path'', JStr ''README.md''), (''sha'', JStr ''3fc4b86'')]"

definition cached_readme :: github_content where
  "cached_readme = readme\<lparr>priv_data := Some readme_payload\<rparr>"

definition some_url :: string where
  "some_url = ''http://some.url/in/the/world''"

definition existing_hook :: json where
  "existing_hook =
     JObj [(''id'', JInt 1),
           (''config'', JObj [(''url'', JStr some_url), (''content_type'', JStr ''json'')])]"

definition label_d :: json where
  "label_d = JObj [(''id'', JInt 7), (''name'', JStr ''d''), (''color'', JStr ''555555'')]"

definition after_create :: "(github_repository, http_reply list) world" where
  "after_create =
     \<lparr>self = test_repo\<lparr>priv_data := Some label_d\<rparr>, server = [],
      trace = [(labels_request test_repo, Ok labels_abc),
               (create_label_request test_repo ''d'' ''#555555'', Ok label_d)]\<rparr>"

definition registered_once :: "(github_repository, json list) world" where
  "registered_once =
     \<lparr>self = test_repo\<lparr>priv_data := Some existing_hook\<rparr>, server = [existing_hook],
      trace = [(hooks_request test_repo, Ok (JList [])),
               (register_hook_request test_repo some_url None None, Ok existing_hook)]\<rparr>"

definition registered_twice :: "(github_repository, json list) world" where
  "registered_twice =
     registered_once\<lparr>trace := trace registered_once @
        [(hooks_request test_repo, Ok (JList [existing_hook]))]\<rparr>"

definition other_url :: string where
  "other_url = ''http://some.url/i/have/a/secret''"

definition test_commit :: gitlab_commit where
  "test_commit =
     \<lparr>priv_token = ''token'',
      priv_url = ''/projects/gitmate-test-user%2Ftest/repository/commits/3fc4b860'',
      priv_data = None,
      commit_repository = ''gitmate-test-user/test'',
      priv_sha = Some ''3fc4b860'',
      priv_branch = None\<rparr>"




definition readme_diff :: json where
  "readme_diff =
     JList [JObj [(''new_path'', JStr ''README.md''), (''old_path'', JStr ''README.md''),
                  (''diff'', JStr ''@@ -1,2 +1,4 @@'')]]"

text \<open>A stand-in for \<open>get_diff_index\<close>: the patch covers the lines 1 to 4 of the file.\<close>

definition four_line_index :: "json \<Rightarrow> int \<Rightarrow> error + int option" where
  "four_line_index patch line = Inr (if 1 \<le> line \<and> line \<le> 4 then Some line else None)"

definition below :: string where
  "below = ''This will end up below''"

definition diff_listed :: "(gitlab_commit, http_reply list) world" where
  "diff_listed =
     \<lparr>self = test_commit, server = [Ok JNull],
      trace = [(diff_request test_commit, Ok readme_diff)]\<rparr>"

definition empty_answer :: http_reply where
  "empty_answer = Failed ''Git Repository is empty.'' 409"

definition missing_answer :: http_reply where
  "missing_answer = Failed ''Not Found'' 404"

definition secret_hook :: json where
  "secret_hook =
     JObj [(''id'', JInt 2),
           (''config'', JObj [(''url'', JStr other_url), (''content_type'', JStr ''json''),
                              (''secret'', JStr ''mylittlesecret'')])]"

definition third_hook :: json where
  "third_hook =
     JObj [(''id'', JInt 3),
           (''config'', JObj [(''url'', JStr some_url), (''content_type'', JStr ''form'')])]"

definition three_hooks :: "json list" where
  "three_hooks = [existing_hook, secret_hook, third_hook]"




section \<open>Basic facts about the access layer\<close>

lemma io_bind_apply:
  "io_bind m f w = (case m w of (Inl e, w') \<Rightarrow> (Inl e, w') | (Inr x, w') \<Rightarrow> f x w')"
  by (simp add: io_bind_def)

lemma fetch_world:
  "snd (fetch net rq w) =
     w\<lparr>server := snd (net (server w) rq), trace := trace w @ [(rq, fst (net (server w) rq))]\<rparr>"
  by (simp add: fetch_def split: prod.splits)

lemma fetch_result:
  "fst (fetch net rq w) =
     (case fst (net (server w) rq) of
        Ok j \<Rightarrow> Inr j
      | Failed b c \<Rightarrow> Inl (RuntimeError [JStr b, JInt c]))"
  by (simp add: fetch_def split: prod.splits)

lemma fetch_self: "self (snd (fetch net rq w)) = self w"
  by (simp add: fetch_world)

lemma fetch_requests: "requests (snd (fetch net rq w)) = requests w @ [rq]"
  by (simp add: fetch_world requests_def)

lemma fetch_error:
  "fst (fetch net rq w) = Inl e \<Longrightarrow> \<exists>b c. e = RuntimeError [JStr b, JInt c]"
  by (auto simp: fetch_result split: http_reply.splits)

lemma try_map_error:
  assumes "try_map f xs = Inl e"
  shows "\<exists>x \<in> set xs. f x = Inl e"
  using assms by (induction xs) (auto split: sum.splits)

section \<open>Labels: the local pre-check\<close>

lemma label_name_error:
  "try_bind (py_getitem label ''name'') py_key = Inl e \<Longrightarrow> e = KeyError \<or> e = TypeError"
  by (cases label; cases "py_getitem label ''name''")
     (auto simp: try_bind_def split: option.splits sum.splits elim: py_key.elims)

lemma py_iter_error: "py_iter j = Inl e \<Longrightarrow> e = TypeError"
  by (cases j) auto

lemma get_labels_world:
  "snd (get_labels net w) = snd (fetch net (labels_request (self w)) w)"
  by (simp add: get_labels_def get_def io_bind_apply io_lift_def labels_request_def
           split: prod.splits sum.splits)

lemma get_labels_error:
  assumes "fst (get_labels net w) = Inl e"
  shows "e = KeyError \<or> e = TypeError \<or> (\<exists>b c. e = RuntimeError [JStr b, JInt c])"
proof (cases "fetch net (labels_request (self w)) w")
  case (Pair r w')
  show ?thesis
  proof (cases r)
    case (Inl e')
    with Pair assms have "e = e'"
      by (simp add: get_labels_def get_def io_bind_apply labels_request_def)
    moreover from Pair Inl have "fst (fetch net (labels_request (self w)) w) = Inl e'" by simp
    ultimately show ?thesis using fetch_error by blast
  next
    case (Inr j)
    with Pair assms have
      *: "try_bind (py_iter j)
            (\<lambda>labels. try_bind
               (try_map (\<lambda>label. try_bind (py_getitem label ''name'') py_key) labels)
               (\<lambda>names. Inr (set names))) = Inl e"
      by (simp add: get_labels_def get_def io_bind_apply io_lift_def labels_request_def)
    show ?thesis
    proof (cases "py_iter j")
      case (Inl e')
      with * show ?thesis by (auto simp: try_bind_def dest: py_iter_error)
    next
      case (Inr ls)
      with * have "try_map (\<lambda>label. try_bind (py_getitem label ''name'') py_key) ls = Inl e"
        by (auto simp: try_bind_def split: sum.splits)
      then show ?thesis by (auto dest!: try_map_error label_name_error)
    qed
  qed
qed

lemma fetch_error_pair:
  "fetch net rq w = (Inl e, w') \<Longrightarrow> \<exists>b c. e = RuntimeError [JStr b, JInt c]"
  by (rule fetch_error[of net rq w]) simp

lemma post_error:
  "post net t u d w = (Inl e, w') \<Longrightarrow> \<exists>b c. e = RuntimeError [JStr b, JInt c]"
  unfolding post_def by (rule fetch_error_pair)

lemma delete_error:
  "delete net t u d w = (Inl e, w') \<Longrightarrow> \<exists>b c. e = RuntimeError [JStr b, JInt c]"
  unfolding delete_def by (rule fetch_error_pair)

lemma create_label_raises_iff:
  "(\<exists>m. fst (create_label net name color w) = Inl (ElementAlreadyExistsError m)) =
      (\<exists>labels. fst (get_labels net w) = Inr labels \<and> KStr name \<in> labels)"
proof (cases "get_labels net w")
  case (Pair r w1)
  show ?thesis
  proof (cases r)
    case (Inl e)
    with Pair have "fst (get_labels net w) = Inl e" by simp
    from get_labels_error[OF this] Pair Inl show ?thesis
      by (auto simp: create_label_def io_bind_apply)
  next
    case (Inr labels)
    with Pair show ?thesis
      by (auto simp: create_label_def io_bind_apply io_raise_def set_data_def
               dest: post_error split: sum.splits prod.splits)
  qed
qed

lemma delete_label_raises_iff:
  "(\<exists>m. fst (delete_label net name w) = Inl (ElementDoesntExistError m)) =
      (\<exists>labels. fst (get_labels net w) = Inr labels \<and> KStr name \<notin> labels)"
proof (cases "get_labels net w")
  case (Pair r w1)
  show ?thesis
  proof (cases r)
    case (Inl e)
    with Pair have "fst (get_labels net w) = Inl e" by simp
    from get_labels_error[OF this] Pair Inl show ?thesis
      by (auto simp: delete_label_def io_bind_apply)
  next
    case (Inr labels)
    with Pair show ?thesis
      by (auto simp: delete_label_def io_bind_apply io_raise_def io_return_def
               dest: delete_error split: sum.splits prod.splits)
  qed
qed

lemma get_labels_frame:
  assumes "get_labels net w = (r, w1)"
  shows "self w1 = self w" and "requests w1 = requests w @ [labels_request (self w)]"
  using assms get_labels_world[of net w] by (simp_all add: fetch_self fetch_requests)

lemma delete_label_requests:
  assumes "get_labels net w = (Inr labels, w1)" and "KStr name \<in> labels"
  shows "requests (snd (delete_label net name w)) =
           requests w1 @ [delete_label_request (self w) name]"
proof -
  have "snd (delete_label net name w) =
          snd (fetch net (delete_label_request (self w1) name) w1)"
    using assms
    by (simp add: delete_label_def io_bind_apply delete_def io_return_def
          delete_label_request_def split: prod.splits sum.splits)
  then show ?thesis using get_labels_frame(1)[OF assms(1)] by (simp add: fetch_requests)
qed

lemma create_label_requests:
  assumes "get_labels net w = (Inr labels, w1)" and "KStr name \<notin> labels"
  shows "requests (snd (create_label net name color w)) =
           requests w1 @ [create_label_request (self w) name color]"
proof -
  have "requests (snd (create_label net name color w)) =
          requests (snd (fetch net (create_label_request (self w1) name color) w1))"
    using assms
    by (simp add: create_label_def io_bind_apply post_def set_data_def requests_def
          create_label_request_def split: prod.splits sum.splits)
  then show ?thesis using get_labels_frame(1)[OF assms(1)] by (simp add: fetch_requests)
qed

text \<open>
  Claim C1. Whenever \<open>get_labels()\<close> returns a set, \<open>create_label(name, color)\<close>
  raises \<open>ElementAlreadyExistsError\<close> exactly when \<open>name\<close> is in that set, and
  \<open>delete_label(name)\<close> raises \<open>ElementDoesntExistError\<close> exactly when it is not.
  Either error comes from the local check: the run ends in the world the listing left,
  whose only new exchange is the GET of the labels, so no POST or DELETE was issued and
  the object is unchanged. The DELETE is issued when the name is present, the POST when it
  is absent.
\<close>

theorem label_precheck:
  assumes "get_labels net w = (Inr labels, w1)"
  shows
    "((\<exists>m. fst (create_label net name color w) = Inl (ElementAlreadyExistsError m)) =
        (KStr name \<in> labels))
     \<and> ((\<exists>m. fst (delete_label net name w) = Inl (ElementDoesntExistError m)) =
        (KStr name \<notin> labels))
     \<and> self w1 = self w
     \<and> requests w1 = requests w @ [labels_request (self w)]
     \<and> (KStr name \<in> labels \<longrightarrow>
          create_label net name color w =
            (Inl (ElementAlreadyExistsError (name @ '' already exists.'')), w1)
          \<and> requests (snd (delete_label net name w)) =
              requests w1 @ [delete_label_request (self w) name])
     \<and> (KStr name \<notin> labels \<longrightarrow>
          delete_label net name w =
            (Inl (ElementDoesntExistError (name @ '' doesnt exist.'')), w1)
          \<and> requests (snd (create_label net name color w)) =
              requests w1 @ [create_label_request (self w) name color])"
proof -
  have g: "fst (get_labels net w) = Inr labels" using assms by simp
  have 1: "(\<exists>m. fst (create_label net name color w) = Inl (ElementAlreadyExistsError m)) =
        (KStr name \<in> labels)"
    using create_label_raises_iff[of net name color w] g by simp
  have 2: "(\<exists>m. fst (delete_label net name w) = Inl (ElementDoesntExistError m)) =
        (KStr name \<notin> labels)"
    using delete_label_raises_iff[of net name w] g by simp
  have 3: "create_label net name color w =
          (Inl (ElementAlreadyExistsError (name @ '' already exists.'')), w1)"
    if "KStr name \<in> labels"
    using that assms by (simp add: create_label_def io_bind_apply io_raise_def)
  have 4: "delete_label net name w =
          (Inl (ElementDoesntExistError (name @ '' doesnt exist.'')), w1)"
    if "KStr name \<notin> labels"
    using that assms by (simp add: delete_label_def io_bind_apply io_raise_def)
  show ?thesis
    using 1 2 3 4 get_labels_frame[OF assms] delete_label_requests[OF assms]
      create_label_requests[OF assms]
    by blast
qed

lemma test_repo_eq:
  "test_repo = \<lparr>priv_token = ''token'', priv_url = ''/repos/gitmate-test-user/test'',
     priv_data = None, priv_repository = Some ''gitmate-test-user/test''\<rparr>"
  by code_simp

lemma get_labels_abc:
  "get_labels replay (start test_repo [Ok labels_abc]) =
     (Inr {KStr ''a'', KStr ''b'', KStr ''c''}, listed)"
  by (simp add: get_labels_def get_def fetch_def replay_def io_bind_apply io_lift_def
        try_bind_def start_def labels_abc_def labels_request_def listed_def)

theorem label_precheck_witness:
  "create_label replay ''c'' ''#555555'' (start test_repo [Ok labels_abc]) =
     (Inl (ElementAlreadyExistsError ''c already exists.''), listed)
   \<and> delete_label replay ''d'' (start test_repo [Ok labels_abc]) =
     (Inl (ElementDoesntExistError ''d doesnt exist.''), listed)
   \<and> requests (snd (delete_label replay ''c'' (start test_repo [Ok labels_abc]))) =
       [labels_request test_repo, delete_label_request test_repo ''c'']"
proof -
  have c: "KStr ''c'' \<in> {KStr ''a'', KStr ''b'', KStr ''c''}" by simp
  have d: "KStr ''d'' \<notin> {KStr ''a'', KStr ''b'', KStr ''c''}" by simp
  have s: "self (start test_repo [Ok labels_abc]) = test_repo" by (simp add: start_def)
  have r: "requests listed = [labels_request test_repo]" by (simp add: requests_def listed_def)
  have 1: "create_label replay ''c'' ''#555555'' (start test_repo [Ok labels_abc]) =
     (Inl (ElementAlreadyExistsError (''c'' @ '' already exists.'')), listed)"
    using label_precheck[OF get_labels_abc, of "''c''" "''#555555''"] c by blast
  have 2: "delete_label replay ''d'' (start test_repo [Ok labels_abc]) =
     (Inl (ElementDoesntExistError (''d'' @ '' doesnt exist.'')), listed)"
    using label_precheck[OF get_labels_abc, of "''d''" "''#555555''"] d by blast
  have 3: "requests (snd (delete_label replay ''c'' (start test_repo [Ok labels_abc]))) =
       requests listed @ [delete_label_request (self (start test_repo [Ok labels_abc])) ''c'']"
    using label_precheck[OF get_labels_abc, of "''c''" "''#555555''"] c by blast
  from 1 have e1: "create_label replay ''c'' ''#555555'' (start test_repo [Ok labels_abc]) =
     (Inl (ElementAlreadyExistsError ''c already exists.''), listed)" by simp
  from 2 have e2: "delete_label replay ''d'' (start test_repo [Ok labels_abc]) =
     (Inl (ElementDoesntExistError ''d doesnt exist.''), listed)" by simp
  from 3 have e3: "requests (snd (delete_label replay ''c'' (start test_repo [Ok labels_abc]))) =
       [labels_request test_repo, delete_label_request test_repo ''c'']"
    by (simp only: r s append_Cons append_Nil)
  from e1 e2 e3 show ?thesis by (intro conjI)
qed

section \<open>The lazy snapshot\<close>

lemma data_cached: "priv_data (self w) = Some d \<Longrightarrow> data net w = (Inr d, w)"
  by (simp add: data_def)

lemma data_fresh:
  "priv_data (self w) = None \<Longrightarrow>
   data net w =
     (case fetch net (data_request (self w)) w of
        (Inl e, w') \<Rightarrow> (Inl e, w')
      | (Inr d, w') \<Rightarrow> (Inr d, w'\<lparr>self := (self w')\<lparr>priv_data := Some d\<rparr>\<rparr>))"
  by (simp add: data_def get_def data_request_def)

lemma data_fresh_requests:
  "priv_data (self w) = None \<Longrightarrow>
   requests (snd (data net w)) = requests w @ [data_request (self w)]"
  using fetch_requests[of net "data_request (self w)" w]
  by (auto simp: data_fresh requests_def split: prod.splits sum.splits)

lemma data_fresh_result:
  "priv_data (self w) = None \<Longrightarrow>
   fst (data net w) = fst (fetch net (data_request (self w)) w)"
  by (auto simp: data_fresh split: prod.splits sum.splits)

lemma full_name_unnamed:
  "priv_repository (self w) = None \<Longrightarrow>
   full_name net w = io_bind (data net) (\<lambda>d. io_lift (py_getitem d ''full_name'')) w"
  by (simp add: full_name_def)

lemma full_name_named:
  "priv_repository (self w) = Some s \<Longrightarrow> s \<noteq> [] \<Longrightarrow> full_name net w = (Inr (JStr s), w)"
  by (simp add: full_name_def)

lemma full_name_fetches:
  assumes "priv_repository (self w) = None" and "priv_data (self w) = None"
  shows "requests (snd (full_name net w)) = requests w @ [data_request (self w)]"
    and "fst (full_name net w) =
           (case fst (net (server w) (data_request (self w))) of
              Ok d \<Rightarrow> py_getitem d ''full_name''
            | Failed b c \<Rightarrow> Inl (RuntimeError [JStr b, JInt c]))"
proof -
  have *: "snd (full_name net w) = snd (data net w)"
    using assms(1) by (simp add: full_name_unnamed io_bind_apply io_lift_def split: prod.splits sum.splits)
  show "requests (snd (full_name net w)) = requests w @ [data_request (self w)]"
    by (simp add: * data_fresh_requests[OF assms(2)])
  show "fst (full_name net w) =
           (case fst (net (server w) (data_request (self w))) of
              Ok d \<Rightarrow> py_getitem d ''full_name''
            | Failed b c \<Rightarrow> Inl (RuntimeError [JStr b, JInt c]))"
    using assms data_fresh_result[OF assms(2), of net] 
    by (auto simp: full_name_unnamed io_bind_apply io_lift_def fetch_result
             split: prod.splits sum.splits http_reply.splits)
qed

section \<open>Addressing a repository by id or by name\<close>

lemma digits_ok_chars: "digits_ok t \<Longrightarrow> c \<in> set t \<Longrightarrow> is_digit c \<or> c = CHR ''_''"
  by (induction t rule: digits_ok.induct) (auto split: if_splits)

lemma set_dropWhile_subset: "set (dropWhile P xs) \<subseteq> set xs"
  by (induction xs) auto

lemma strip_subset: "set (strip s) \<subseteq> set s"
  using set_dropWhile_subset[of is_space "rev (dropWhile is_space s)"]
    set_dropWhile_subset[of is_space s]
  by (auto simp: strip_def)

lemma py_int_str_chars:
  assumes "py_int_str s = Some n" and "c \<in> set (strip s)"
  shows "is_digit c \<or> c = CHR ''_'' \<or> c = CHR ''-'' \<or> c = CHR ''+''"
proof (cases "strip s")
  case Nil
  with assms show ?thesis by simp
next
  case (Cons a r)
  with assms show ?thesis
    by (auto simp: py_int_str_def split: if_splits dest: digits_ok_chars)
qed

lemma keeps_non_space:
  assumes "c \<in> set s" and "\<not> is_space c"
  shows "c \<in> set (strip s)"
proof -
  have k: "c \<in> set (dropWhile is_space xs)" if "c \<in> set xs" for xs
    using that assms(2) by (induction xs) auto
  show ?thesis using assms(1) by (auto simp: strip_def intro!: k)
qed

lemma slash_not_int:
  assumes "CHR ''/'' \<in> set s"
  shows "py_int_str s = None"
proof (cases "py_int_str s")
  case None
  then show ?thesis .
next
  case (Some n)
  have "\<not> is_space CHR ''/''" by (simp add: is_space_def)
  then have "CHR ''/'' \<in> set (strip s)" using assms by (rule keeps_non_space[rotated])
  from py_int_str_chars[OF Some this] show ?thesis by (simp add: is_digit_def)
qed

lemma digit_not_space: "is_digit c \<Longrightarrow> \<not> is_space c"
  by (auto simp: is_digit_def is_space_def)

lemma strip_id:
  assumes "\<forall>c \<in> set s. \<not> is_space c"
  shows "strip s = s"
proof -
  have d: "dropWhile is_space xs = xs" if "\<forall>c \<in> set xs. \<not> is_space c" for xs
    using that by (cases xs) auto
  show ?thesis using assms by (simp add: strip_def d)
qed

lemma all_digits_ok: "s \<noteq> [] \<Longrightarrow> \<forall>c \<in> set s. is_digit c \<Longrightarrow> digits_ok s"
  by (induction s rule: digits_ok.induct) (auto simp: is_digit_def)

lemma digits_only_int:
  assumes "s \<noteq> []" and "\<forall>c \<in> set s. is_digit c"
  shows "py_int_str s = Some (digits_value s)"
proof -
  have "strip s = s" using assms(2) by (intro strip_id) (auto dest: digit_not_space)
  moreover obtain c r where "s = c # r" using assms(1) by (cases s) auto
  moreover have "is_digit c" using assms(2) \<open>s = c # r\<close> by simp
  then have "c \<noteq> CHR ''-''" "c \<noteq> CHR ''+''" by (auto simp: is_digit_def)
  ultimately show ?thesis using all_digits_ok[OF assms] by (simp add: py_int_str_def)
qed

text \<open>
  Claim C7. A repository constructed from a numeric id is addressed by the flat URL
  \<open>/repositories/{id}\<close> and holds no name, so on a fresh object \<open>full_name\<close> issues
  exactly one request, the GET of the repository data, and returns the \<open>full_name\<close>
  of the fetched snapshot. A repository constructed from an \<open>owner/name\<close> string is
  addressed by the nested URL \<open>/repos/owner/name\<close>, and \<open>full_name\<close> returns the
  given string and leaves the world as it was: no request.
\<close>

theorem dual_addressing:
  "(self w = GitHubRepository_init token (RepoInt n) \<longrightarrow>
      priv_url (self w) = ''/repositories/'' @ str_int n
      \<and> priv_repository (self w) = None
      \<and> requests (snd (full_name net w)) = requests w @ [data_request (self w)]
      \<and> fst (full_name net w) =
          (case fst (net (server w) (data_request (self w))) of
             Ok d \<Rightarrow> py_getitem d ''full_name''
           | Failed b c \<Rightarrow> Inl (RuntimeError [JStr b, JInt c])))
   \<and> (CHR ''/'' \<in> set s \<and> self w = GitHubRepository_init token (RepoStr s) \<longrightarrow>
      priv_url (self w) = ''/repos/'' @ s
      \<and> priv_repository (self w) = Some s
      \<and> full_name net w = (Inr (JStr s), w))"
proof (intro conjI impI)
  assume a: "self w = GitHubRepository_init token (RepoInt n)"
  then have r: "priv_repository (self w) = None" and d: "priv_data (self w) = None"
    by (simp_all add: numeric_repository_def)
  show "priv_url (self w) = ''/repositories/'' @ str_int n"
    using a by (simp add: numeric_repository_def)
  show "priv_repository (self w) = None" by (rule r)
  show "requests (snd (full_name net w)) = requests w @ [data_request (self w)]"
    by (rule full_name_fetches(1)[OF r d])
  show "fst (full_name net w) =
          (case fst (net (server w) (data_request (self w))) of
             Ok d \<Rightarrow> py_getitem d ''full_name''
           | Failed b c \<Rightarrow> Inl (RuntimeError [JStr b, JInt c]))"
    by (rule full_name_fetches(2)[OF r d])
next
  assume "CHR ''/'' \<in> set s \<and> self w = GitHubRepository_init token (RepoStr s)"
  then have sl: "CHR ''/'' \<in> set s" and a: "self w = GitHubRepository_init token (RepoStr s)"
    by simp_all
  from sl have ne: "s \<noteq> []" by auto
  from a slash_not_int[OF sl] have n: "self w = named_repository token s" by simp
  show "priv_url (self w) = ''/repos/'' @ s" using n by (simp add: named_repository_def)
  show rp: "priv_repository (self w) = Some s" using n by (simp add: named_repository_def)
  show "full_name net w = (Inr (JStr s), w)" by (rule full_name_named[OF rp ne])
qed

lemma str_int_42: "str_int 42 = ''42''"
  by code_simp

theorem dual_addressing_witness:
  "priv_url numbered_repo = ''/repositories/42''
   \<and> priv_repository numbered_repo = None
   \<and> requests (snd (full_name replay (start numbered_repo [Ok repo_payload]))) =
       [data_request numbered_repo]
   \<and> fst (full_name replay (start numbered_repo [Ok repo_payload])) =
       Inr (JStr ''gitmate-test-user/test'')
   \<and> priv_url test_repo = ''/repos/gitmate-test-user/test''
   \<and> full_name replay (start test_repo []) =
       (Inr (JStr ''gitmate-test-user/test''), start test_repo [])"
proof -
  let ?w = "start numbered_repo [Ok repo_payload]"
  have s1: "self ?w = GitHubRepository_init ''token'' (RepoInt 42)"
    by (simp add: start_def numbered_repo_def)
  have s2: "CHR ''/'' \<in> set ''gitmate-test-user/test'' \<and>
      self (start test_repo ([] :: http_reply list)) =
        GitHubRepository_init ''token'' (RepoStr ''gitmate-test-user/test'')"
    by (simp add: start_def test_repo_def)
  have q: "requests ?w = []" by (simp add: start_def requests_def)
  have n: "fst (replay (server ?w) (data_request (self ?w))) = Ok repo_payload"
    by (simp add: start_def replay_def)
  have p: "py_getitem repo_payload ''full_name'' = Inr (JStr ''gitmate-test-user/test'')"
    by (simp add: repo_payload_def)
  note a = dual_addressing[of ?w "''token''" 42 replay "''x/y''", THEN conjunct1, rule_format, OF s1]
  note b = dual_addressing[of "start test_repo []" "''token''" 0 replay "''gitmate-test-user/test''",
      THEN conjunct2, rule_format, OF s2]
  have 1: "priv_url numbered_repo = ''/repositories/42''"
    using a[THEN conjunct1] by (simp add: start_def str_int_42)
  have 2: "priv_repository numbered_repo = None"
    using a[THEN conjunct2, THEN conjunct1] by (simp add: start_def)
  have 3: "requests (snd (full_name replay ?w)) = [data_request numbered_repo]"
    using a[THEN conjunct2, THEN conjunct2, THEN conjunct1] q by (simp add: start_def)
  have 4: "fst (full_name replay ?w) = Inr (JStr ''gitmate-test-user/test'')"
    using a[THEN conjunct2, THEN conjunct2, THEN conjunct2] n p by simp
  have 5: "priv_url test_repo = ''/repos/gitmate-test-user/test''"
    using b[THEN conjunct1] by (simp add: start_def)
  have 6: "full_name replay (start test_repo []) =
       (Inr (JStr ''gitmate-test-user/test''), start test_repo [])"
    using b[THEN conjunct2, THEN conjunct2] .
  from 1 2 3 4 5 6 show ?thesis by (intro conjI)
qed

text \<open>
  Claim C9. A non-empty string of decimal digits is parsed by \<open>int\<close>, so \<open>__init__\<close>
  builds the object it builds for the number: the stored name is \<open>None\<close>, the URL is
  the flat \<open>/repositories/{n}\<close> and not a nested \<open>/repos/...\<close> one, and \<open>full_name\<close>
  is read from the data snapshot, fetched with one GET on the fresh object.
\<close>

theorem digit_string_is_numeric:
  assumes "s \<noteq> []" and "\<forall>c \<in> set s. is_digit c"
  shows "py_int_str s = Some (digits_value s)
     \<and> GitHubRepository_init token (RepoStr s) = numeric_repository token (digits_value s)
     \<and> priv_repository (GitHubRepository_init token (RepoStr s)) = None
     \<and> priv_url (GitHubRepository_init token (RepoStr s)) =
         ''/repositories/'' @ str_int (digits_value s)
     \<and> take 7 (priv_url (GitHubRepository_init token (RepoStr s))) \<noteq> ''/repos/''
     \<and> (\<forall>net w. self w = GitHubRepository_init token (RepoStr s) \<longrightarrow>
           full_name net w = io_bind (data net) (\<lambda>d. io_lift (py_getitem d ''full_name'')) w
           \<and> requests (snd (full_name net w)) = requests w @ [data_request (self w)])"
proof -
  note i = digits_only_int[OF assms]
  have e: "GitHubRepository_init token (RepoStr s) = numeric_repository token (digits_value s)"
    by (simp add: i)
  have f: "full_name net w = io_bind (data net) (\<lambda>d. io_lift (py_getitem d ''full_name'')) w
           \<and> requests (snd (full_name net w)) = requests w @ [data_request (self w)]"
    if "self w = GitHubRepository_init token (RepoStr s)" for net and w :: "(github_repository, 's) world"
  proof -
    from that e have r: "priv_repository (self w) = None" and d: "priv_data (self w) = None"
      by (simp_all add: numeric_repository_def)
    show ?thesis using full_name_unnamed[OF r] full_name_fetches(1)[OF r d] by simp
  qed
  have 3: "priv_repository (GitHubRepository_init token (RepoStr s)) = None"
    by (simp add: i numeric_repository_def)
  have 4: "priv_url (GitHubRepository_init token (RepoStr s)) =
         ''/repositories/'' @ str_int (digits_value s)"
    by (simp add: i numeric_repository_def)
  have 5: "take 7 (priv_url (GitHubRepository_init token (RepoStr s))) \<noteq> ''/repos/''"
    by (simp add: i numeric_repository_def)
  show ?thesis using i e 3 4 5 f by blast
qed

theorem digit_string_is_numeric_witness:
  "py_int_str ''007'' = Some 7
   \<and> priv_url (GitHubRepository_init ''token'' (RepoStr ''007'')) = ''/repositories/7''
   \<and> priv_repository (GitHubRepository_init ''token'' (RepoStr ''007'')) = None
   \<and> requests (snd (full_name replay
        (start (GitHubRepository_init ''token'' (RepoStr ''007'')) [Ok repo_payload]))) =
       [data_request (GitHubRepository_init ''token'' (RepoStr ''007''))]"
proof -
  have ne: "''007'' \<noteq> []" by simp
  have dg: "\<forall>c \<in> set ''007''. is_digit c" by (simp add: is_digit_def)
  have v: "digits_value ''007'' = 7" by (simp add: digits_value_def digit_val_def is_digit_def)
  have t: "str_int 7 = ''7''" by code_simp
  note th = digit_string_is_numeric[OF ne dg, of "''token''"]
  let ?r = "GitHubRepository_init ''token'' (RepoStr ''007'')"
  let ?w = "start ?r [Ok repo_payload]"
  have s: "self ?w = ?r" by (simp add: start_def)
  have q: "requests ?w = []" by (simp add: start_def requests_def)
  have 1: "py_int_str ''007'' = Some 7" using th[THEN conjunct1] v by simp
  have 2: "priv_url ?r = ''/repositories/7''"
    using th[THEN conjunct2, THEN conjunct2, THEN conjunct2, THEN conjunct1] v t by simp
  have 3: "priv_repository ?r = None"
    using th[THEN conjunct2, THEN conjunct2, THEN conjunct1] .
  have 4: "requests (snd (full_name replay ?w)) = [data_request ?r]"
    using th[THEN conjunct2, THEN conjunct2, THEN conjunct2, THEN conjunct2, THEN conjunct2,
             rule_format, OF s, THEN conjunct2, where net1 = replay] q s
    by simp
  from 1 2 3 4 show ?thesis by (intro conjI)
qed

section \<open>GitHubContent: the cached snapshot\<close>

lemma get_content_stores:
  "get_content net ref w =
     (case fetch net (get_content_request (self w) ref) w of
        (Inl e, w') \<Rightarrow> (Inl e, w')
      | (Inr d, w') \<Rightarrow> (Inr (), w'\<lparr>self := (self w')\<lparr>priv_data := Some d\<rparr>\<rparr>))"
  by (simp add: get_content_def get_def io_bind_apply set_data_def get_content_request_def
        split: prod.splits sum.splits)

lemma data_self_fields:
  "priv_url (self (snd (data net w))) = priv_url (self w)"
  "priv_token (self (snd (data net w))) = priv_token (self w)"
  by (auto simp: data_def get_def fetch_def split: option.splits prod.splits sum.splits http_reply.splits)

lemma content_delete_cached:
  assumes "priv_data (self w) = Some d" and "py_getitem d ''sha'' = Inr h"
  shows "requests (snd (content_delete net message branch w)) =
           requests w @ [content_delete_request (self w) message branch h]"
proof -
  have "snd (content_delete net message branch w) =
          snd (fetch net (content_delete_request (self w) message branch h) w)"
    using assms
    by (simp add: content_delete_def io_bind_apply io_lift_def io_return_def data_cached
          delete_def content_delete_request_def Let_def split: prod.splits sum.splits)
  then show ?thesis by (simp add: fetch_requests)
qed

lemma content_update_cached:
  assumes "priv_data (self w) = Some d" and "py_getitem d ''sha'' = Inr h"
  shows "requests (snd (content_update net message content branch w)) =
           requests w @ [content_update_request (self w) message content branch h]"
proof -
  have "snd (content_update net message content branch w) =
          snd (fetch net (content_update_request (self w) message content branch h) w)"
    using assms
    by (simp add: content_update_def io_bind_apply io_lift_def io_return_def data_cached
          put_def content_update_request_def Let_def split: prod.splits sum.splits)
  then show ?thesis by (simp add: fetch_requests)
qed

lemma data_fresh_ok:
  assumes "priv_data (self w) = None"
    and "fst (net (server w) (data_request (self w))) = Ok d"
  shows "data net w =
           (Inr d, (snd (fetch net (data_request (self w)) w))
                     \<lparr>self := (self w)\<lparr>priv_data := Some d\<rparr>\<rparr>)"
  using assms
  by (cases "net (server w) (data_request (self w))")
     (simp add: data_fresh fetch_def)

lemma content_delete_fresh:
  assumes "priv_data (self w) = None"
    and "fst (net (server w) (data_request (self w))) = Ok d"
    and "py_getitem d ''sha'' = Inr h"
  shows "requests (snd (content_delete net message branch w)) =
           requests w @ [data_request (self w),
                         content_delete_request (self w) message branch h]"
proof -
  let ?w1 = "(snd (fetch net (data_request (self w)) w))\<lparr>self := (self w)\<lparr>priv_data := Some d\<rparr>\<rparr>"
  have c: "content_delete_request (self ?w1) message branch h =
           content_delete_request (self w) message branch h"
    by (simp add: content_delete_request_def)
  have "snd (content_delete net message branch w) =
          snd (fetch net (content_delete_request (self ?w1) message branch h) ?w1)"
    using assms(3)
    by (simp add: content_delete_def io_bind_apply io_lift_def io_return_def
          data_fresh_ok[of w net d, OF assms(1,2)] delete_def content_delete_request_def Let_def
          split: prod.splits sum.splits)
  then have "requests (snd (content_delete net message branch w)) =
          requests ?w1 @ [content_delete_request (self ?w1) message branch h]"
    by (simp only: fetch_requests)
  moreover have "requests ?w1 = requests w @ [data_request (self w)]"
    using fetch_requests[of net "data_request (self w)" w] by (simp add: requests_def)
  ultimately show ?thesis by (simp only: c append_assoc append_Cons append_Nil)
qed

lemma content_update_fresh:
  assumes "priv_data (self w) = None"
    and "fst (net (server w) (data_request (self w))) = Ok d"
    and "py_getitem d ''sha'' = Inr h"
  shows "requests (snd (content_update net message content branch w)) =
           requests w @ [data_request (self w),
                         content_update_request (self w) message content branch h]"
proof -
  let ?w1 = "(snd (fetch net (data_request (self w)) w))\<lparr>self := (self w)\<lparr>priv_data := Some d\<rparr>\<rparr>"
  have c: "content_update_request (self ?w1) message content branch h =
           content_update_request (self w) message content branch h"
    by (simp add: content_update_request_def)
  have "snd (content_update net message content branch w) =
          snd (fetch net (content_update_request (self ?w1) message content branch h) ?w1)"
    using assms(3)
    by (simp add: content_update_def io_bind_apply io_lift_def io_return_def
          data_fresh_ok[of w net d, OF assms(1,2)] put_def content_update_request_def Let_def
          split: prod.splits sum.splits)
  then have "requests (snd (content_update net message content branch w)) =
          requests ?w1 @ [content_update_request (self ?w1) message content branch h]"
    by (simp only: fetch_requests)
  moreover have "requests ?w1 = requests w @ [data_request (self w)]"
    using fetch_requests[of net "data_request (self w)" w] by (simp add: requests_def)
  ultimately show ?thesis by (simp only: c append_assoc append_Cons append_Nil)
qed

text \<open>
  Claim C10. \<open>get_content(ref)\<close> returns nothing (the unit value): on a 2xx answer it
  stores the decoded body as the object's data snapshot. \<open>delete\<close> and \<open>update\<close> send
  the \<open>sha\<close> of the snapshot that is cached at that moment, without any GET; when no
  snapshot is cached they first load it with one GET of the object's URL and send the
  \<open>sha\<close> of what came back.
\<close>

theorem content_snapshot:
  "get_content net ref w =
     (case fetch net (get_content_request (self w) ref) w of
        (Inl e, w') \<Rightarrow> (Inl e, w')
      | (Inr d, w') \<Rightarrow> (Inr (), w'\<lparr>self := (self w')\<lparr>priv_data := Some d\<rparr>\<rparr>))
   \<and> (priv_data (self w) = Some d \<and> py_getitem d ''sha'' = Inr h \<longrightarrow>
        requests (snd (content_delete net message branch w)) =
          requests w @ [content_delete_request (self w) message branch h]
        \<and> requests (snd (content_update net message content branch w)) =
          requests w @ [content_update_request (self w) message content branch h])
   \<and> (priv_data (self w) = None \<and> fst (net (server w) (data_request (self w))) = Ok d
        \<and> py_getitem d ''sha'' = Inr h \<longrightarrow>
        requests (snd (content_delete net message branch w)) =
          requests w @ [data_request (self w),
                        content_delete_request (self w) message branch h]
        \<and> requests (snd (content_update net message content branch w)) =
          requests w @ [data_request (self w),
                        content_update_request (self w) message content branch h])"
  using get_content_stores[of net ref w]
    content_delete_cached[of w d h net message branch]
    content_update_cached[of w d h net message content branch]
    content_delete_fresh[of w net d h message branch]
    content_update_fresh[of w net d h message content branch]
  by blast

theorem content_snapshot_witness:
  "get_content replay ''master'' (start readme [Ok readme_payload]) =
     (Inr (), \<lparr>self = cached_readme, server = [],
               trace = [(get_content_request readme ''master'', Ok readme_payload)]\<rparr>)
   \<and> requests (snd (content_delete replay ''remove'' None (start cached_readme [Ok JNull]))) =
       [content_delete_request cached_readme ''remove'' None (JStr ''3fc4b86'')]
   \<and> requests (snd (content_update replay ''change'' ''hello'' (Some ''dev'')
                       (start readme [Ok readme_payload, Ok JNull]))) =
       [data_request readme,
        content_update_request readme ''change'' ''hello'' (Some ''dev'') (JStr ''3fc4b86'')]"
proof -
  let ?w0 = "start readme [Ok readme_payload]"
  let ?w1 = "start cached_readme [Ok JNull]"
  let ?w2 = "start readme [Ok readme_payload, Ok JNull]"
  have sha: "py_getitem readme_payload ''sha'' = Inr (JStr ''3fc4b86'')"
    by (simp add: readme_payload_def)
  have h1: "priv_data (self ?w1) = Some readme_payload \<and>
            py_getitem readme_payload ''sha'' = Inr (JStr ''3fc4b86'')"
    using sha by (simp add: start_def cached_readme_def)
  have h2: "priv_data (self ?w2) = None \<and>
            fst (replay (server ?w2) (data_request (self ?w2))) = Ok readme_payload \<and>
            py_getitem readme_payload ''sha'' = Inr (JStr ''3fc4b86'')"
    using sha by (simp add: start_def readme_def GitHubContent_init_def replay_def)
  have f: "fetch replay (get_content_request (self ?w0) ''master'') ?w0 =
             (Inr readme_payload,
              \<lparr>self = readme, server = [],
               trace = [(get_content_request readme ''master'', Ok readme_payload)]\<rparr>)"
    by (simp add: fetch_def replay_def start_def)
  have 1: "get_content replay ''master'' ?w0 =
     (Inr (), \<lparr>self = cached_readme, server = [],
               trace = [(get_content_request readme ''master'', Ok readme_payload)]\<rparr>)"
    using content_snapshot[of replay "''master''" ?w0, THEN conjunct1]
    by (simp add: f cached_readme_def)
  have 2: "requests (snd (content_delete replay ''remove'' None ?w1)) =
       [content_delete_request cached_readme ''remove'' None (JStr ''3fc4b86'')]"
    using content_snapshot[of replay "''master''" ?w1 readme_payload "JStr ''3fc4b86''"
        "''remove''" None "''x''", THEN conjunct2, THEN conjunct1, rule_format, OF h1,
        THEN conjunct1]
    by (simp add: start_def requests_def)
  have 3: "requests (snd (content_update replay ''change'' ''hello'' (Some ''dev'') ?w2)) =
       [data_request readme,
        content_update_request readme ''change'' ''hello'' (Some ''dev'') (JStr ''3fc4b86'')]"
    using content_snapshot[of replay "''master''" ?w2 readme_payload "JStr ''3fc4b86''"
        "''change''" "Some ''dev''" "''hello''", THEN conjunct2, THEN conjunct2, rule_format,
        OF h2, THEN conjunct2]
    by (simp add: start_def requests_def)
  from 1 2 3 show ?thesis by (intro conjI)
qed

section \<open>The snapshot after label and hook operations\<close>

lemma fetch_last: "fetch net rq w = (Inr d, w') \<Longrightarrow> last (trace w') = (rq, Ok d)"
  by (auto simp: fetch_def split: prod.splits http_reply.splits)

lemma fetch_self_pair: "fetch net rq w = (r, w') \<Longrightarrow> self w' = self w"
  using fetch_self[of net rq w] by simp

lemma repo_identifier_cached:
  "priv_data (self w) = Some d \<Longrightarrow> repo_identifier net w = (py_getitem d ''id'', w)"
  by (simp add: repo_identifier_def io_bind_apply io_lift_def data_cached)

lemma hooks_world:
  "snd (hooks net w) = snd (fetch net (hooks_request (self w)) w)"
  by (simp add: hooks_def get_def io_bind_apply io_lift_def hooks_request_def
           split: prod.splits sum.splits)

lemma hooks_frame:
  assumes "hooks net w = (r, w1)"
  shows "self w1 = self w" and "requests w1 = requests w @ [hooks_request (self w)]"
  using assms hooks_world[of net w] by (simp_all add: fetch_self fetch_requests)

lemma create_label_success:
  assumes "create_label net name color w = (Inr (), w')"
  shows "\<exists>resp. last (trace w') = (create_label_request (self w) name color, Ok resp)
           \<and> priv_data (self w') = Some resp
           \<and> repo_identifier net w' = (py_getitem resp ''id'', w')"
proof (cases "get_labels net w")
  case (Pair r w1)
  show ?thesis
  proof (cases r)
    case (Inl e)
    with Pair assms show ?thesis by (simp add: create_label_def io_bind_apply)
  next
    case (Inr labels)
    note s = get_labels_frame(1)[OF Pair]
    from Pair Inr assms have absent: "KStr name \<notin> labels"
      by (auto simp: create_label_def io_bind_apply io_raise_def)
    obtain r2 w2 where f: "fetch net (create_label_request (self w) name color) w1 = (r2, w2)"
      by (cases "fetch net (create_label_request (self w) name color) w1") auto
    from Pair Inr assms absent f s obtain resp where
      r2: "r2 = Inr resp" and w': "w' = w2\<lparr>self := (self w2)\<lparr>priv_data := Some resp\<rparr>\<rparr>"
      by (cases r2)
         (auto simp: create_label_def io_bind_apply post_def set_data_def
            create_label_request_def)
    have "last (trace w') = (create_label_request (self w) name color, Ok resp)"
      using fetch_last[OF f[unfolded r2]] by (simp add: w')
    moreover have d: "priv_data (self w') = Some resp" by (simp add: w')
    ultimately show ?thesis using repo_identifier_cached[OF d] by blast
  qed
qed

lemma register_hook_success:
  assumes "register_hook net url secret events w = (Inr (), w')"
  shows "\<exists>registered w1. hooks net w = (Inr registered, w1) \<and> self w1 = self w \<and>
           (if KStr url \<in> registered then w' = w1
            else (\<exists>resp.
              last (trace w') = (register_hook_request (self w) url secret events, Ok resp)
              \<and> priv_data (self w') = Some resp
              \<and> repo_identifier net w' = (py_getitem resp ''id'', w')))"
proof (cases "hooks net w")
  case (Pair r w1)
  note s = hooks_frame(1)[OF Pair]
  show ?thesis
  proof (cases r)
    case (Inl e)
    with Pair assms show ?thesis by (simp add: register_hook_def io_bind_apply)
  next
    case (Inr registered)
    show ?thesis
    proof (cases "KStr url \<in> registered")
      case True
      with Pair Inr assms have "w' = w1"
        by (simp add: register_hook_def io_bind_apply io_return_def)
      with True Pair Inr s show ?thesis by simp
    next
      case False
      obtain r2 w2 where
        f: "fetch net (register_hook_request (self w) url secret events) w1 = (r2, w2)"
        by (cases "fetch net (register_hook_request (self w) url secret events) w1") auto
      from Pair Inr assms False f s obtain resp where
        r2: "r2 = Inr resp" and w': "w' = w2\<lparr>self := (self w2)\<lparr>priv_data := Some resp\<rparr>\<rparr>"
        by (cases r2)
           (auto simp: register_hook_def io_bind_apply post_def set_data_def Let_def
              register_hook_request_def hook_payload_def split: option.splits if_splits)
      have l: "last (trace w') = (register_hook_request (self w) url secret events, Ok resp)"
        using fetch_last[OF f[unfolded r2]] by (simp add: w')
      have d: "priv_data (self w') = Some resp" by (simp add: w')
      from l d repo_identifier_cached[OF d] False Pair Inr s show ?thesis by simp
    qed
  qed
qed

lemma delete_label_self: "self (snd (delete_label net name w)) = self w"
proof (cases "get_labels net w")
  case (Pair r w1)
  note s = get_labels_frame(1)[OF Pair]
  show ?thesis
    using Pair s
    by (cases r)
       (auto simp: delete_label_def io_bind_apply io_raise_def io_return_def delete_def
          dest: fetch_self_pair split: prod.splits sum.splits)
qed

lemma delete_hook_loop_self:
  "self (snd (delete_hook_loop net hook_url url hs w)) = self w"
proof (induction hs arbitrary: w)
  case Nil
  show ?case by (simp add: io_return_def)
next
  case (Cons hook rest)
  show ?case
    using Cons.IH
    by (auto simp: io_bind_apply io_lift_def delete_def
          dest!: fetch_self_pair split: prod.splits sum.splits)
qed

lemma delete_hook_self: "self (snd (delete_hook net url w)) = self w"
proof -
  obtain r w1 where f: "fetch net (hooks_request (self w)) w = (r, w1)"
    by (cases "fetch net (hooks_request (self w)) w") auto
  then have s: "self w1 = self w" by (rule fetch_self_pair)
  show ?thesis
    using f s delete_hook_loop_self[of net "priv_url (self w) @ ''/hooks''" url _ w1]
    by (auto simp: delete_hook_def Let_def get_def io_bind_apply io_lift_def hooks_request_def
          split: prod.splits sum.splits)
qed

text \<open>
  Claim C8, as stated, fails where \<open>register_hook\<close> finds the URL among the hooks: the
  call returns normally after the listing, no POST is issued and the snapshot is what it
  was (here: still absent).
\<close>

theorem register_hook_noop_counterexample:
  "fst (register_hook hook_store some_url None None (start test_repo [existing_hook])) = Inr ()
   \<and> priv_data (self (snd (register_hook hook_store some_url None None
                              (start test_repo [existing_hook])))) = None
   \<and> requests (snd (register_hook hook_store some_url None None
                        (start test_repo [existing_hook]))) = [hooks_request test_repo]"
  by (simp add: register_hook_def hooks_def get_def fetch_def hook_store_def io_bind_apply
        io_lift_def io_return_def try_bind_def start_def existing_hook_def requests_def
        hooks_request_def test_repo_eq)

text \<open>
  Claim C8, amended. After a \<open>create_label\<close> call that returns, the last exchange is
  the POST of the label and the cached snapshot is the body of its answer, so
  \<open>identifier\<close> then is the \<open>id\<close> of that body, read without a request. After a
  \<open>register_hook\<close> call that returns, either the URL was among the hooks and the world
  is the one the listing left (object unchanged), or the last exchange is the POST of the
  hook and the snapshot is the body of its answer. \<open>delete_label\<close> and \<open>delete_hook\<close>
  leave the object, and so its snapshot, unchanged, whatever their outcome.
\<close>

theorem snapshot_after_post:
  "(create_label net name color w = (Inr (), w') \<longrightarrow>
      (\<exists>resp. last (trace w') = (create_label_request (self w) name color, Ok resp)
         \<and> priv_data (self w') = Some resp
         \<and> repo_identifier net w' = (py_getitem resp ''id'', w')))
   \<and> (register_hook net url secret events w = (Inr (), w') \<longrightarrow>
      (\<exists>registered w1. hooks net w = (Inr registered, w1) \<and> self w1 = self w \<and>
         (if KStr url \<in> registered then w' = w1
          else (\<exists>resp.
            last (trace w') = (register_hook_request (self w) url secret events, Ok resp)
            \<and> priv_data (self w') = Some resp
            \<and> repo_identifier net w' = (py_getitem resp ''id'', w')))))
   \<and> self (snd (delete_label net name w)) = self w
   \<and> self (snd (delete_hook net url w)) = self w"
  using create_label_success[of net name color w w']
    register_hook_success[of net url secret events w w']
    delete_label_self[of net name w] delete_hook_self[of net url w]
  by blast

lemma create_label_d:
  "create_label replay ''d'' ''#555555'' (start test_repo [Ok labels_abc, Ok label_d]) =
     (Inr (), after_create)"
  by (simp add: create_label_def get_labels_def get_def post_def fetch_def replay_def
        io_bind_apply io_lift_def io_raise_def set_data_def try_bind_def start_def
        labels_abc_def labels_request_def create_label_request_def after_create_def
        test_repo_eq)

theorem snapshot_after_post_witness:
  "create_label replay ''d'' ''#555555'' (start test_repo [Ok labels_abc, Ok label_d]) =
     (Inr (), after_create)
   \<and> priv_data (self after_create) = Some label_d
   \<and> repo_identifier replay after_create = (Inr (JInt 7), after_create)
   \<and> self (snd (delete_label replay ''c'' (start test_repo [Ok labels_abc, Ok JNull]))) =
       test_repo
   \<and> self (snd (delete_hook hook_store some_url (start test_repo [existing_hook]))) =
       test_repo"
proof -
  let ?w = "start test_repo [Ok labels_abc, Ok label_d]"
  note t = snapshot_after_post[of replay "''d''" "''#555555''" ?w after_create]
  from t[THEN conjunct1, rule_format, OF create_label_d] obtain resp where
    l: "last (trace after_create) = (create_label_request (self ?w) ''d'' ''#555555'', Ok resp)"
    and d: "priv_data (self after_create) = Some resp"
    and i: "repo_identifier replay after_create = (py_getitem resp ''id'', after_create)"
    by blast
  from l have r: "resp = label_d" by (simp add: after_create_def)
  have p: "py_getitem label_d ''id'' = Inr (JInt 7)" by (simp add: label_d_def)
  have 2: "priv_data (self after_create) = Some label_d" using d r by simp
  have 3: "repo_identifier replay after_create = (Inr (JInt 7), after_create)"
    using i r p by simp
  have 4: "self (snd (delete_label replay ''c'' (start test_repo [Ok labels_abc, Ok JNull]))) =
       test_repo"
    using snapshot_after_post[where net = replay and name = "''c''"
        and w = "start test_repo [Ok labels_abc, Ok JNull]",
        THEN conjunct2, THEN conjunct2, THEN conjunct1]
    by (simp add: start_def)
  have 5: "self (snd (delete_hook hook_store some_url (start test_repo [existing_hook]))) =
       test_repo"
    using snapshot_after_post[where net = hook_store and url = some_url
        and w = "start test_repo [existing_hook]",
        THEN conjunct2, THEN conjunct2, THEN conjunct2]
    by (simp add: start_def)
  from create_label_d 2 3 4 5 show ?thesis by (intro conjI)
qed

section \<open>Webhooks: registration and removal\<close>

lemma register_hook_registered:
  assumes "hooks net w = (Inr registered, w1)" and "KStr url \<in> registered"
  shows "register_hook net url secret events w = (Inr (), w1)"
  using assms by (simp add: register_hook_def io_bind_apply io_return_def)

lemma delete_hook_loop_no_match:
  assumes "\<forall>h \<in> set hs. \<exists>u. configured_url h = Inr u \<and> u \<noteq> JStr url"
  shows "delete_hook_loop net hook_url url hs w = (Inr (), w)"
  using assms
proof (induction hs)
  case Nil
  show ?case by (simp add: io_return_def)
next
  case (Cons h hs)
  then obtain u where "configured_url h = Inr u" "u \<noteq> JStr url" by auto
  with Cons show ?case
    by (simp add: io_bind_apply io_lift_def configured_url_def)
qed

lemma delete_hook_loop_match:
  assumes "configured_url h = Inr (JStr url)" and "py_getitem h ''id'' = Inr i"
  shows "delete_hook_loop net (priv_url (self w) @ ''/hooks'') url (h # hs) w =
           (case fetch net (delete_hook_request (self w) h) w of
              (Inl e, w') \<Rightarrow> (Inl e, w')
            | (Inr x, w') \<Rightarrow>
                delete_hook_loop net (priv_url (self w) @ ''/hooks'') url hs w')"
  using assms
  by (simp add: io_bind_apply io_lift_def configured_url_def delete_def
        delete_hook_request_def hook_id_str_def)

lemma delete_hook_loop_requests:
  assumes "fst (delete_hook_loop net (priv_url (self w) @ ''/hooks'') url hs w) = Inr ()"
  shows "requests (snd (delete_hook_loop net (priv_url (self w) @ ''/hooks'') url hs w)) =
           requests w @
           map (delete_hook_request (self w))
             (filter (\<lambda>h. configured_url h = Inr (JStr url)) hs)"
  using assms
proof (induction hs arbitrary: w)
  case Nil
  show ?case by (simp add: io_return_def)
next
  case (Cons h hs)
  let ?hu = "priv_url (self w) @ ''/hooks''"
  show ?case
  proof (cases "configured_url h")
    case (Inl e)
    with Cons.prems show ?thesis
      by (simp add: io_bind_apply io_lift_def configured_url_def)
  next
    case (Inr u)
    show ?thesis
    proof (cases "u = JStr url")
      case False
      with Inr have s: "delete_hook_loop net ?hu url (h # hs) w = delete_hook_loop net ?hu url hs w"
        by (simp add: io_bind_apply io_lift_def configured_url_def)
      from Cons.prems have "fst (delete_hook_loop net ?hu url hs w) = Inr ()"
        by (simp only: s)
      from Cons.IH[OF this] Inr False show ?thesis by (simp only: s) simp
    next
      case True
      show ?thesis
      proof (cases "py_getitem h ''id''")
        case (Inl e)
        with Inr True Cons.prems show ?thesis
          by (simp add: io_bind_apply io_lift_def configured_url_def)
      next
        case i: (Inr i)
        have m: "configured_url h = Inr (JStr url)" using Inr True by simp
        note st = delete_hook_loop_match[OF m i, of net w hs]
        obtain r w2 where f: "fetch net (delete_hook_request (self w) h) w = (r, w2)"
          by (cases "fetch net (delete_hook_request (self w) h) w") auto
        have sw: "self w2 = self w" using f by (rule fetch_self_pair)
        have rqs: "requests w2 = requests w @ [delete_hook_request (self w) h]"
          using fetch_requests[of net "delete_hook_request (self w) h" w] f by simp
        show ?thesis
        proof (cases r)
          case (Inl e)
          with f Cons.prems[unfolded st] show ?thesis
            by simp
        next
          case ok: (Inr j)
          have s: "delete_hook_loop net ?hu url (h # hs) w =
                   delete_hook_loop net ?hu url hs w2"
            unfolding st using f ok by simp
          from Cons.prems have "fst (delete_hook_loop net (priv_url (self w2) @ ''/hooks'') url hs w2) = Inr ()"
            by (simp only: s sw)
          from Cons.IH[OF this] show ?thesis
            unfolding s using m by (simp add: sw rqs)
        qed
      qed
    qed
  qed
qed

lemma delete_hook_unfold:
  assumes "fst (net (server w) (hooks_request (self w))) = Ok (JList hs)"
  shows "delete_hook net url w =
           delete_hook_loop net (priv_url (self w) @ ''/hooks'') url hs
             (snd (fetch net (hooks_request (self w)) w))"
  using assms
  by (cases "net (server w) (hooks_request (self w))")
     (simp add: delete_hook_def Let_def get_def io_bind_apply io_lift_def hooks_request_def
        fetch_def)

lemma delete_hook_no_match:
  assumes "fst (net (server w) (hooks_request (self w))) = Ok (JList hs)"
    and "\<forall>h \<in> set hs. \<exists>u. configured_url h = Inr u \<and> u \<noteq> JStr url"
  shows "delete_hook net url w = (Inr (), snd (fetch net (hooks_request (self w)) w))"
  unfolding delete_hook_unfold[of net w hs url, OF assms(1)]
  by (rule delete_hook_loop_no_match[OF assms(2)])

lemma delete_hook_requests:
  assumes "fst (net (server w) (hooks_request (self w))) = Ok (JList hs)"
    and "fst (delete_hook net url w) = Inr ()"
  shows "requests (snd (delete_hook net url w)) =
           requests w @ hooks_request (self w) #
             map (delete_hook_request (self w))
               (filter (\<lambda>h. configured_url h = Inr (JStr url)) hs)"
proof -
  let ?w1 = "snd (fetch net (hooks_request (self w)) w)"
  note u = delete_hook_unfold[of net w hs url, OF assms(1)]
  have sw: "self ?w1 = self w" by (rule fetch_self)
  have rq: "requests ?w1 = requests w @ [hooks_request (self w)]" by (rule fetch_requests)
  from assms(2)
  have "fst (delete_hook_loop net (priv_url (self ?w1) @ ''/hooks'') url hs ?w1) = Inr ()"
    by (simp only: u sw)
  from delete_hook_loop_requests[OF this] show ?thesis by (simp add: u sw rq)
qed

lemma delete_hook_loop_returns:
  assumes "\<forall>h \<in> set hs. \<exists>u. configured_url h = Inr u"
    and "\<forall>h \<in> set hs. configured_url h = Inr (JStr url) \<longrightarrow> (\<exists>i. py_getitem h ''id'' = Inr i)"
    and "\<forall>s. \<forall>h \<in> set hs. configured_url h = Inr (JStr url) \<longrightarrow>
           (\<exists>j s'. net s (delete_hook_request (self w) h) = (Ok j, s'))"
  shows "fst (delete_hook_loop net (priv_url (self w) @ ''/hooks'') url hs w) = Inr ()"
  using assms
proof (induction hs arbitrary: w)
  case Nil
  show ?case by (simp add: io_return_def)
next
  case (Cons h hs)
  let ?hu = "priv_url (self w) @ ''/hooks''"
  from Cons.prems(1) obtain u where u: "configured_url h = Inr u" by auto
  from Cons.prems have r: "\<forall>h \<in> set hs. \<exists>u. configured_url h = Inr u"
    and i: "\<forall>h \<in> set hs. configured_url h = Inr (JStr url) \<longrightarrow>
              (\<exists>i. py_getitem h ''id'' = Inr i)"
    and ok: "\<forall>s. \<forall>h \<in> set hs. configured_url h = Inr (JStr url) \<longrightarrow>
              (\<exists>j s'. net s (delete_hook_request (self w) h) = (Ok j, s'))"
    by simp_all
  show ?case
  proof (cases "u = JStr url")
    case False
    with u have s: "delete_hook_loop net ?hu url (h # hs) w = delete_hook_loop net ?hu url hs w"
      by (simp add: io_bind_apply io_lift_def configured_url_def)
    show ?thesis unfolding s by (rule Cons.IH[OF r i ok])
  next
    case True
    with u have m: "configured_url h = Inr (JStr url)" by simp
    from Cons.prems(2) m obtain k where k: "py_getitem h ''id'' = Inr k" by auto
    from Cons.prems(3) m obtain j s' where
      a: "net (server w) (delete_hook_request (self w) h) = (Ok j, s')"
      by (metis list.set_intros(1))
    obtain w2 where f: "fetch net (delete_hook_request (self w) h) w = (Inr j, w2)"
      using a by (simp add: fetch_def)
    have sw: "self w2 = self w" using f by (rule fetch_self_pair)
    have s: "delete_hook_loop net ?hu url (h # hs) w = delete_hook_loop net ?hu url hs w2"
      unfolding delete_hook_loop_match[OF m k, of net w hs] using f by simp
    have "fst (delete_hook_loop net (priv_url (self w2) @ ''/hooks'') url hs w2) = Inr ()"
      by (rule Cons.IH[OF r i]) (use ok sw in simp)
    then show ?thesis unfolding s sw .
  qed
qed

lemma delete_hook_returns:
  assumes "fst (net (server w) (hooks_request (self w))) = Ok (JList hs)"
    and "\<forall>h \<in> set hs. \<exists>u. configured_url h = Inr u"
    and "\<forall>h \<in> set hs. configured_url h = Inr (JStr url) \<longrightarrow> (\<exists>i. py_getitem h ''id'' = Inr i)"
    and "\<forall>s. \<forall>h \<in> set hs. configured_url h = Inr (JStr url) \<longrightarrow>
           (\<exists>j s'. net s (delete_hook_request (self w) h) = (Ok j, s'))"
  shows "fst (delete_hook net url w) = Inr ()"
proof -
  let ?w1 = "snd (fetch net (hooks_request (self w)) w)"
  have sw: "self ?w1 = self w" by (rule fetch_self)
  have "fst (delete_hook_loop net (priv_url (self ?w1) @ ''/hooks'') url hs ?w1) = Inr ()"
    by (rule delete_hook_loop_returns[of hs url net ?w1, OF assms(2,3)]) (use assms(4) sw in simp)
  then show ?thesis
    unfolding delete_hook_unfold[of net w hs url, OF assms(1)] sw .
qed

text \<open>
  Claim C3. If the URL is among the hook URLs the listing yields, \<open>register_hook\<close>
  returns in the world the listing left: its only request is that GET, there is no
  registration request. If the provider lists hooks (each with a \<open>config\<close> object) none
  of which is configured for the URL, \<open>delete_hook\<close> returns normally after the listing
  alone. Whenever \<open>delete_hook\<close> returns normally, the requests it made are the listing
  followed by one DELETE for every listed hook whose configured URL equals the given one,
  in the order of the listing, and no other. And it does return normally, having made
  exactly those requests, when every listed hook has a \<open>config\<close> object with a URL, every
  hook configured for the given URL has an \<open>id\<close>, and the provider answers the DELETE of
  each of them with success.
\<close>

theorem hook_idempotence:
  "(hooks net w = (Inr registered, w1) \<and> KStr url \<in> registered \<longrightarrow>
      register_hook net url secret events w = (Inr (), w1)
      \<and> requests w1 = requests w @ [hooks_request (self w)])
   \<and> (fst (net (server w) (hooks_request (self w))) = Ok (JList hs) \<longrightarrow>
        ((\<forall>h \<in> set hs. \<exists>u. configured_url h = Inr u \<and> u \<noteq> JStr url) \<longrightarrow>
           fst (delete_hook net url w) = Inr ()
           \<and> requests (snd (delete_hook net url w)) = requests w @ [hooks_request (self w)])
        \<and> (fst (delete_hook net url w) = Inr () \<longrightarrow>
           requests (snd (delete_hook net url w)) =
             requests w @ hooks_request (self w) #
               map (delete_hook_request (self w))
                 (filter (\<lambda>h. configured_url h = Inr (JStr url)) hs))
        \<and> ((\<forall>h \<in> set hs. \<exists>u. configured_url h = Inr u)
           \<and> (\<forall>h \<in> set hs. configured_url h = Inr (JStr url) \<longrightarrow>
                (\<exists>i. py_getitem h ''id'' = Inr i))
           \<and> (\<forall>s. \<forall>h \<in> set hs. configured_url h = Inr (JStr url) \<longrightarrow>
                (\<exists>j s'. net s (delete_hook_request (self w) h) = (Ok j, s'))) \<longrightarrow>
           fst (delete_hook net url w) = Inr ()
           \<and> requests (snd (delete_hook net url w)) =
               requests w @ hooks_request (self w) #
                 map (delete_hook_request (self w))
                   (filter (\<lambda>h. configured_url h = Inr (JStr url)) hs)))"
proof (intro conjI impI)
  assume "hooks net w = (Inr registered, w1) \<and> KStr url \<in> registered"
  then have h: "hooks net w = (Inr registered, w1)" and m: "KStr url \<in> registered" by simp_all
  show "register_hook net url secret events w = (Inr (), w1)"
    by (rule register_hook_registered[OF h m])
  show "requests w1 = requests w @ [hooks_request (self w)]"
    by (rule hooks_frame(2)[OF h])
next
  assume l: "fst (net (server w) (hooks_request (self w))) = Ok (JList hs)"
  { assume n: "\<forall>h \<in> set hs. \<exists>u. configured_url h = Inr u \<and> u \<noteq> JStr url"
    from delete_hook_no_match[of net w hs url, OF l n]
    show "fst (delete_hook net url w) = Inr ()"
      and "requests (snd (delete_hook net url w)) = requests w @ [hooks_request (self w)]"
      by (simp_all add: fetch_requests) }
  { assume r: "fst (delete_hook net url w) = Inr ()"
    show "requests (snd (delete_hook net url w)) =
             requests w @ hooks_request (self w) #
               map (delete_hook_request (self w))
                 (filter (\<lambda>h. configured_url h = Inr (JStr url)) hs)"
      by (rule delete_hook_requests[of net w hs url, OF l r]) }
  { assume a: "(\<forall>h \<in> set hs. \<exists>u. configured_url h = Inr u)
           \<and> (\<forall>h \<in> set hs. configured_url h = Inr (JStr url) \<longrightarrow>
                (\<exists>i. py_getitem h ''id'' = Inr i))
           \<and> (\<forall>s. \<forall>h \<in> set hs. configured_url h = Inr (JStr url) \<longrightarrow>
                (\<exists>j s'. net s (delete_hook_request (self w) h) = (Ok j, s')))"
    show r: "fst (delete_hook net url w) = Inr ()"
      by (rule delete_hook_returns[of net w hs url, OF l a[THEN conjunct1] a[THEN conjunct2, THEN conjunct1]
            a[THEN conjunct2, THEN conjunct2]])
    show "requests (snd (delete_hook net url w)) =
             requests w @ hooks_request (self w) #
               map (delete_hook_request (self w))
                 (filter (\<lambda>h. configured_url h = Inr (JStr url)) hs)"
      by (rule delete_hook_requests[of net w hs url, OF l r]) }
qed

lemma first_registration:
  "register_hook hook_store some_url None None (start test_repo []) = (Inr (), registered_once)"
  by (simp add: register_hook_def hooks_def get_def post_def fetch_def hook_store_def
        hook_record_def io_bind_apply io_lift_def io_return_def set_data_def try_bind_def
        start_def existing_hook_def hooks_request_def register_hook_request_def
        hook_payload_def registered_once_def test_repo_eq Let_def)

lemma second_listing:
  "hooks hook_store registered_once = (Inr {KStr some_url}, registered_twice)"
  by (simp add: hooks_def get_def fetch_def hook_store_def io_bind_apply io_lift_def
        try_bind_def existing_hook_def hooks_request_def registered_once_def
        registered_twice_def test_repo_eq)

lemma existing_hook_url: "configured_url existing_hook = Inr (JStr some_url)"
  by (simp add: configured_url_def existing_hook_def try_bind_def)

lemma three_hooks_urls:
  "configured_url existing_hook = Inr (JStr some_url)"
  "configured_url secret_hook = Inr (JStr other_url)"
  "configured_url third_hook = Inr (JStr some_url)"
  by (simp_all add: configured_url_def existing_hook_def secret_hook_def third_hook_def
        try_bind_def)

lemma three_hooks_ids:
  "py_getitem existing_hook ''id'' = Inr (JInt 1)"
  "py_getitem secret_hook ''id'' = Inr (JInt 2)"
  "py_getitem third_hook ''id'' = Inr (JInt 3)"
  by (simp_all add: existing_hook_def secret_hook_def third_hook_def)

lemma three_hooks_left:
  "server (snd (delete_hook hook_store some_url (start test_repo three_hooks))) = [secret_hook]"
  by code_simp

theorem hook_idempotence_witness:
  "register_hook hook_store some_url None None (start test_repo []) = (Inr (), registered_once)
   \<and> register_hook hook_store some_url None None registered_once = (Inr (), registered_twice)
   \<and> server registered_twice = [existing_hook]
   \<and> requests registered_twice = requests registered_once @ [hooks_request test_repo]
   \<and> fst (delete_hook hook_store other_url (start test_repo [existing_hook])) = Inr ()
   \<and> requests (snd (delete_hook hook_store other_url (start test_repo [existing_hook]))) =
       [hooks_request test_repo]
   \<and> requests (snd (delete_hook hook_store some_url (start test_repo [existing_hook]))) =
       [hooks_request test_repo, delete_hook_request test_repo existing_hook]
   \<and> fst (delete_hook hook_store some_url (start test_repo three_hooks)) = Inr ()
   \<and> requests (snd (delete_hook hook_store some_url (start test_repo three_hooks))) =
       [hooks_request test_repo, delete_hook_request test_repo existing_hook,
        delete_hook_request test_repo third_hook]
   \<and> server (snd (delete_hook hook_store some_url (start test_repo three_hooks))) =
       [secret_hook]"
proof -
  let ?w = "start test_repo [existing_hook]"
  have m: "hooks hook_store registered_once = (Inr {KStr some_url}, registered_twice)
           \<and> KStr some_url \<in> {KStr some_url}"
    using second_listing by simp
  note a = hook_idempotence[where net = hook_store and w = registered_once
      and url = some_url and secret = None and events = None,
      THEN conjunct1, rule_format, OF m]
  have 2: "register_hook hook_store some_url None None registered_once =
             (Inr (), registered_twice)"
    using a[THEN conjunct1] .
  have 3: "server registered_twice = [existing_hook]"
    by (simp add: registered_twice_def registered_once_def)
  have 4: "requests registered_twice = requests registered_once @ [hooks_request test_repo]"
    using a[THEN conjunct2] by (simp add: registered_once_def hooks_request_def)
  have l: "fst (hook_store (server ?w) (hooks_request (self ?w))) = Ok (JList [existing_hook])"
    by (simp add: hook_store_def start_def hooks_request_def)
  have n: "\<forall>h \<in> set [existing_hook]. \<exists>u. configured_url h = Inr u \<and> u \<noteq> JStr other_url"
    by (simp add: existing_hook_url some_url_def other_url_def)
  note b = hook_idempotence[where net = hook_store and w = ?w and hs = "[existing_hook]"
      and url = other_url, THEN conjunct2, THEN mp, OF l, THEN conjunct1, THEN mp, OF n]
  have 5: "fst (delete_hook hook_store other_url ?w) = Inr ()" using b[THEN conjunct1] .
  have 6: "requests (snd (delete_hook hook_store other_url ?w)) = [hooks_request test_repo]"
    using b[THEN conjunct2] by (simp add: start_def requests_def)
  have d: "fst (delete_hook hook_store some_url ?w) = Inr ()"
    by (simp add: delete_hook_def Let_def get_def delete_def fetch_def hook_store_def
          io_bind_apply io_lift_def io_return_def try_bind_def start_def existing_hook_def
          some_url_def)
  note c = hook_idempotence[where net = hook_store and w = ?w and hs = "[existing_hook]"
      and url = some_url, THEN conjunct2, THEN mp, OF l, THEN conjunct2, THEN conjunct1,
      THEN mp, OF d]
  have 7: "requests (snd (delete_hook hook_store some_url ?w)) =
       [hooks_request test_repo, delete_hook_request test_repo existing_hook]"
    using c by (simp add: start_def requests_def existing_hook_url)
  let ?t = "start test_repo three_hooks"
  have l3: "fst (hook_store (server ?t) (hooks_request (self ?t))) = Ok (JList three_hooks)"
    by (simp add: hook_store_def start_def hooks_request_def)
  have a3: "(\<forall>h \<in> set three_hooks. \<exists>u. configured_url h = Inr u)
      \<and> (\<forall>h \<in> set three_hooks. configured_url h = Inr (JStr some_url) \<longrightarrow>
            (\<exists>i. py_getitem h ''id'' = Inr i))
      \<and> (\<forall>s. \<forall>h \<in> set three_hooks. configured_url h = Inr (JStr some_url) \<longrightarrow>
            (\<exists>j s'. hook_store s (delete_hook_request (self ?t) h) = (Ok j, s')))"
    by (simp add: three_hooks_def three_hooks_urls three_hooks_ids hook_store_def
          delete_hook_request_def)
  have fl: "filter (\<lambda>h. configured_url h = Inr (JStr some_url)) three_hooks =
              [existing_hook, third_hook]"
    by (simp add: three_hooks_def three_hooks_urls some_url_def other_url_def)
  note e = hook_idempotence[where net = hook_store and w = ?t and hs = three_hooks
      and url = some_url, THEN conjunct2, THEN mp, OF l3, THEN conjunct2, THEN conjunct2,
      THEN mp, OF a3]
  have 8: "fst (delete_hook hook_store some_url ?t) = Inr ()" using e[THEN conjunct1] .
  have 9: "requests (snd (delete_hook hook_store some_url ?t)) =
       [hooks_request test_repo, delete_hook_request test_repo existing_hook,
        delete_hook_request test_repo third_hook]"
    using e[THEN conjunct2] by (simp add: fl start_def requests_def)
  from first_registration 2 3 4 5 6 7 8 9 three_hooks_left show ?thesis by (intro conjI)
qed

section \<open>Commit statuses: one per name\<close>










lemma test_commit_init:
  "GitLabCommit_init ''token'' ''gitmate-test-user/test'' (Some ''3fc4b860'') None =
     Inr test_commit"
  by code_simp







section \<open>Commit comments: the fallback to a general comment\<close>

lemma patch_loop_absent:
  assumes "\<forall>p \<in> set ps. \<exists>n old. py_getitem p ''new_path'' = Inr n \<and>
             py_getitem p ''old_path'' = Inr old \<and> n \<noteq> JStr f \<and> old \<noteq> JStr f"
  shows "patch_loop f ps = Inl (ElementDoesntExistError ''The file does not exist.'')"
  using assms
proof (induction ps)
  case Nil
  show ?case by simp
next
  case (Cons p ps)
  then obtain n old where "py_getitem p ''new_path'' = Inr n" "py_getitem p ''old_path'' = Inr old"
    "n \<noteq> JStr f" "old \<noteq> JStr f" by auto
  with Cons show ?case by (auto simp: try_bind_def)
qed

lemma get_patch_for_file_absent:
  assumes "fst (net (server w) (diff_request (self w))) = Ok (JList ps)"
    and "\<forall>p \<in> set ps. \<exists>n old. py_getitem p ''new_path'' = Inr n \<and>
             py_getitem p ''old_path'' = Inr old \<and> n \<noteq> JStr f \<and> old \<noteq> JStr f"
  shows "fst (get_patch_for_file net f w) =
           Inl (ElementDoesntExistError ''The file does not exist.'')"
  using assms(1) patch_loop_absent[OF assms(2)]
  by (cases "net (server w) (diff_request (self w))")
     (simp add: get_patch_for_file_def get_def fetch_def io_bind_apply io_lift_def
        diff_request_def try_bind_def)

lemma inline_position_fallback:
  assumes "get_patch_for_file net f w = (r, w1)"
    and "(\<exists>m. r = Inl (ElementDoesntExistError m)) \<or>
         (\<exists>patch. r = Inr patch \<and>
            (get_diff_index patch l = Inr None \<or> get_diff_index patch l = Inr (Some 0)))"
  shows "inline_position net get_diff_index d f l w = (Inr d, w1)"
  using assms
  by (auto simp: inline_position_def io_bind_apply io_lift_def try_bind_def)

lemma fallback_note_body:
  assumes "sha net w1 = (Inr (JStr s), w2)"
  shows "fallback_note net [(''note'', JStr message), (''line_type'', JStr ''new'')]
           (Some f) (Some l) w1 =
         (Inr [(''note'', JStr (fallback_body s message f l)), (''line_type'', JStr ''new'')],
          w2)"
  using assms
  by (simp add: fallback_note_def Let_def io_bind_apply io_lift_def try_bind_def str_add_def
        fallback_body_def)

lemma comment_fallback:
  assumes "get_patch_for_file net f w = (r, w1)"
    and "(\<exists>m. r = Inl (ElementDoesntExistError m)) \<or>
         (\<exists>patch. r = Inr patch \<and>
            (get_diff_index patch l = Inr None \<or> get_diff_index patch l = Inr (Some 0)))"
    and "sha net w1 = (Inr (JStr s), w2)"
  shows "comment net get_diff_index message (Some f) (Some l) mr_number w =
           (case fetch net (fallback_request (self w2) mr_number (fallback_body s message f l)) w2 of
              (Inl e, w') \<Rightarrow> (Inl e, w')
            | (Inr x, w') \<Rightarrow> (Inr (), w'))"
proof -
  note i = inline_position_fallback[where get_diff_index = get_diff_index and l = l
      and d = "[(''note'', JStr message), (''line_type'', JStr ''new'')]", OF assms(1,2)]
  note n = fallback_note_body[OF assms(3), of message f l]
  show ?thesis
  proof (cases mr_number)
    case None
    then show ?thesis
      by (simp add: comment_def Let_def io_bind_apply i n post_def io_return_def
            fallback_request_def general_comment_request_def
            split: prod.splits sum.splits)
  next
    case (Some k)
    then show ?thesis
      by (simp add: comment_def Let_def io_bind_apply i n post_def io_return_def io_lift_def
            fallback_request_def mr_note_request_def
            split: prod.splits sum.splits)
  qed
qed

text \<open>
  Claim C6. Let \<open>comment\<close> be called with a file and a line. If the patch lookup raises
  \<open>ElementDoesntExistError\<close> (the file is in no entry of the commit's diff), or the line
  has no position in the patch found (\<open>get_diff_index\<close> gives \<open>None\<close>, or the falsy
  \<open>0\<close>), the call makes one POST after the lookups. Its payload has no \<open>line\<close> and no
  \<open>path\<close>: it is a general comment, and its note is the message behind a prefix naming
  the commit SHA, the file and the line. Without \<open>mr_number\<close> the POST goes to the
  commit's comments; with \<open>mr_number\<close> it goes to the notes of that merge request
  instead.
\<close>

theorem comment_falls_back:
  "(get_patch_for_file net f w = (r, w1)
      \<and> ((\<exists>m. r = Inl (ElementDoesntExistError m)) \<or>
         (\<exists>patch. r = Inr patch \<and>
            (get_diff_index patch l = Inr None \<or> get_diff_index patch l = Inr (Some 0))))
      \<and> sha net w1 = (Inr (JStr s), w2) \<longrightarrow>
      comment net get_diff_index message (Some f) (Some l) mr_number w =
        (case fetch net (fallback_request (self w2) mr_number (fallback_body s message f l))
                w2 of
           (Inl e, w') \<Rightarrow> (Inl e, w')
         | (Inr x, w') \<Rightarrow> (Inr (), w')))
   \<and> (fst (net (server w) (diff_request (self w))) = Ok (JList ps)
      \<and> (\<forall>p \<in> set ps. \<exists>n old. py_getitem p ''new_path'' = Inr n \<and>
             py_getitem p ''old_path'' = Inr old \<and> n \<noteq> JStr f \<and> old \<noteq> JStr f) \<longrightarrow>
      fst (get_patch_for_file net f w) =
        Inl (ElementDoesntExistError ''The file does not exist.''))
   \<and> fallback_request c None body = general_comment_request c body
   \<and> fallback_request c (Some k) body = mr_note_request c k body"
proof (intro conjI impI)
  assume a: "get_patch_for_file net f w = (r, w1)
      \<and> ((\<exists>m. r = Inl (ElementDoesntExistError m)) \<or>
         (\<exists>patch. r = Inr patch \<and>
            (get_diff_index patch l = Inr None \<or> get_diff_index patch l = Inr (Some 0))))
      \<and> sha net w1 = (Inr (JStr s), w2)"
  show "comment net get_diff_index message (Some f) (Some l) mr_number w =
        (case fetch net (fallback_request (self w2) mr_number (fallback_body s message f l))
                w2 of
           (Inl e, w') \<Rightarrow> (Inl e, w')
         | (Inr x, w') \<Rightarrow> (Inr (), w'))"
    by (rule comment_fallback[where get_diff_index = get_diff_index and l = l,
          OF a[THEN conjunct1] a[THEN conjunct2, THEN conjunct1]
          a[THEN conjunct2, THEN conjunct2]])
next
  assume "fst (net (server w) (diff_request (self w))) = Ok (JList ps)
      \<and> (\<forall>p \<in> set ps. \<exists>n old. py_getitem p ''new_path'' = Inr n \<and>
             py_getitem p ''old_path'' = Inr old \<and> n \<noteq> JStr f \<and> old \<noteq> JStr f)"
  then show "fst (get_patch_for_file net f w) =
        Inl (ElementDoesntExistError ''The file does not exist.'')"
    using get_patch_for_file_absent[of net w ps f] by blast
next
  show "fallback_request c None body = general_comment_request c body"
    by (simp add: fallback_request_def)
  show "fallback_request c (Some k) body = mr_note_request c k body"
    by (simp add: fallback_request_def)
qed

lemma wrong_file_lookup:
  "get_patch_for_file replay ''READMENOT.md'' (start test_commit [Ok readme_diff, Ok JNull]) =
     (Inl (ElementDoesntExistError ''The file does not exist.''), diff_listed)"
  by (simp add: get_patch_for_file_def get_def fetch_def replay_def io_bind_apply io_lift_def
        try_bind_def start_def readme_diff_def diff_request_def diff_listed_def)

lemma right_file_lookup:
  "get_patch_for_file replay ''README.md'' (start test_commit [Ok readme_diff, Ok JNull]) =
     (Inr (JStr ''@@ -1,2 +1,4 @@''), diff_listed)"
  by (simp add: get_patch_for_file_def get_def fetch_def replay_def io_bind_apply io_lift_def
        try_bind_def start_def readme_diff_def diff_request_def diff_listed_def)

lemma test_commit_sha: "sha replay diff_listed = (Inr (JStr ''3fc4b860''), diff_listed)"
  by (simp add: sha_def truthy_def opt_str_def diff_listed_def test_commit_def)

lemma fallback_prefix:
  "take 47 (fallback_body ''3fc4b860'' below ''READMENOT.md'' 4) =
     ''Comment on 3fc4b860, file READMENOT.md, line 4.''"
  by code_simp

theorem comment_falls_back_witness:
  "comment replay four_line_index below (Some ''READMENOT.md'') (Some 4) None
       (start test_commit [Ok readme_diff, Ok JNull]) =
     (Inr (),
      \<lparr>self = test_commit, server = [],
       trace = [(diff_request test_commit, Ok readme_diff),
                (general_comment_request test_commit
                   (fallback_body ''3fc4b860'' below ''READMENOT.md'' 4), Ok JNull)]\<rparr>)
   \<and> comment replay four_line_index below (Some ''README.md'') (Some 8) (Some 7)
       (start test_commit [Ok readme_diff, Ok JNull]) =
     (Inr (),
      \<lparr>self = test_commit, server = [],
       trace = [(diff_request test_commit, Ok readme_diff),
                (mr_note_request test_commit 7
                   (fallback_body ''3fc4b860'' below ''README.md'' 8), Ok JNull)]\<rparr>)"
proof -
  let ?w = "start test_commit [Ok readme_diff, Ok JNull]"
  have a: "get_patch_for_file replay ''READMENOT.md'' ?w =
             (Inl (ElementDoesntExistError ''The file does not exist.''), diff_listed)
      \<and> ((\<exists>m. Inl (ElementDoesntExistError ''The file does not exist.'') =
                 (Inl (ElementDoesntExistError m) :: error + json)) \<or>
         (\<exists>patch. Inl (ElementDoesntExistError ''The file does not exist.'') = Inr patch \<and>
            (four_line_index patch 4 = Inr None \<or> four_line_index patch 4 = Inr (Some 0))))
      \<and> sha replay diff_listed = (Inr (JStr ''3fc4b860''), diff_listed)"
    using wrong_file_lookup test_commit_sha by simp
  have b: "get_patch_for_file replay ''README.md'' ?w =
             (Inr (JStr ''@@ -1,2 +1,4 @@''), diff_listed)
      \<and> ((\<exists>m. Inr (JStr ''@@ -1,2 +1,4 @@'') =
                 (Inl (ElementDoesntExistError m) :: error + json)) \<or>
         (\<exists>patch. Inr (JStr ''@@ -1,2 +1,4 @@'') = (Inr patch :: error + json) \<and>
            (four_line_index patch 8 = Inr None \<or> four_line_index patch 8 = Inr (Some 0))))
      \<and> sha replay diff_listed = (Inr (JStr ''3fc4b860''), diff_listed)"
    using right_file_lookup test_commit_sha by (simp add: four_line_index_def)
  have 1: "comment replay four_line_index below (Some ''READMENOT.md'') (Some 4) None ?w =
     (Inr (),
      \<lparr>self = test_commit, server = [],
       trace = [(diff_request test_commit, Ok readme_diff),
                (general_comment_request test_commit
                   (fallback_body ''3fc4b860'' below ''READMENOT.md'' 4), Ok JNull)]\<rparr>)"
    using comment_falls_back[where get_diff_index = four_line_index and l = 4
        and mr_number = None and message = below,
        THEN conjunct1, THEN mp, OF a]
    by (simp add: fetch_def replay_def diff_listed_def fallback_request_def)
  have 2: "comment replay four_line_index below (Some ''README.md'') (Some 8) (Some 7) ?w =
     (Inr (),
      \<lparr>self = test_commit, server = [],
       trace = [(diff_request test_commit, Ok readme_diff),
                (mr_note_request test_commit 7
                   (fallback_body ''3fc4b860'' below ''README.md'' 8), Ok JNull)]\<rparr>)"
    using comment_falls_back[where get_diff_index = four_line_index and l = 8
        and mr_number = "Some 7" and message = below,
        THEN conjunct1, THEN mp, OF b]
    by (simp add: fetch_def replay_def diff_listed_def fallback_request_def)
  from 1 2 show ?thesis by (intro conjI)
qed

section \<open>Non-2xx answers: propagated, but for the empty repository\<close>

lemma propagating_fetch: "propagating w (fetch net rq w)"
  unfolding propagating_def
  by (rule exI[of _ "[(rq, fst (net (server w) rq))]"])
     (auto simp: fetch_def split: prod.splits http_reply.splits)

lemma propagating_get: "propagating w (get net t u p w)"
  unfolding get_def by (rule propagating_fetch)

lemma propagating_post: "propagating w (post net t u p w)"
  unfolding post_def by (rule propagating_fetch)

lemma propagating_put: "propagating w (put net t u p w)"
  unfolding put_def by (rule propagating_fetch)

lemma propagating_delete: "propagating w (delete net t u p w)"
  unfolding delete_def by (rule propagating_fetch)

lemma propagating_pure: "propagating w (r, w)"
  unfolding propagating_def by (rule exI[of _ "[]"]) simp

lemma propagating_return: "propagating w (io_return x w)"
  by (simp add: io_return_def propagating_pure)

lemma propagating_raise: "propagating w (io_raise e w)"
  by (simp add: io_raise_def propagating_pure)

lemma propagating_lift: "propagating w (io_lift r w)"
  by (simp add: io_lift_def propagating_pure)

lemma propagating_bind:
  assumes m: "propagating w (m w)"
    and f: "\<And>x w1. propagating w1 (f x w1)"
  shows "propagating w (io_bind m f w)"
proof (cases "m w")
  case (Pair r w1)
  from m Pair obtain new1 where n1: "trace w1 = trace w @ new1"
    and p1: "\<forall>x \<in> set new1. \<forall>b c. snd x = Failed b c \<longrightarrow> r = Inl (RuntimeError [JStr b, JInt c])"
    by (auto simp: propagating_def)
  show ?thesis
  proof (cases r)
    case (Inl e)
    with Pair have e: "io_bind m f w = (Inl e, w1)" by (simp add: io_bind_apply)
    show ?thesis
      unfolding propagating_def e
      by (rule exI[of _ new1]) (use n1 p1 Inl in auto)
  next
    case (Inr x)
    from f[of w1 x] obtain new2 where n2: "trace (snd (f x w1)) = trace w1 @ new2"
      and p2: "\<forall>y \<in> set new2. \<forall>b c. snd y = Failed b c \<longrightarrow>
                 fst (f x w1) = Inl (RuntimeError [JStr b, JInt c])"
      by (auto simp: propagating_def)
    from p1 Inr have q1: "\<forall>x \<in> set new1. \<forall>b c. snd x \<noteq> Failed b c" by auto
    have e: "io_bind m f w = f x w1" using Pair Inr by (simp add: io_bind_apply)
    show ?thesis
      unfolding propagating_def e
      by (rule exI[of _ "new1 @ new2"]) (use n1 n2 p2 q1 in auto)
  qed
qed

lemma propagating_try_map:
  assumes "\<And>x w1. propagating w1 (f x w1)"
  shows "propagating w (io_try_map f xs w)"
proof (induction xs arbitrary: w)
  case Nil
  show ?case by (simp add: propagating_return)
next
  case (Cons x xs)
  show ?case
    by simp
       (intro propagating_bind assms Cons.IH propagating_return)
qed

lemma propagating_data: "propagating w (data net w)"
proof (cases "priv_data (self w)")
  case (Some d)
  then show ?thesis by (simp add: data_cached propagating_pure)
next
  case None
  obtain r w1 where f: "fetch net (data_request (self w)) w = (r, w1)"
    by (cases "fetch net (data_request (self w)) w") auto
  from propagating_fetch[of w net "data_request (self w)"] f
  show ?thesis
    by (cases r) (auto simp: data_fresh[OF None] propagating_def)
qed

lemma propagating_set_data: "propagating w (set_data d w)"
  unfolding propagating_def set_data_def by (rule exI[of _ "[]"]) simp

lemmas propagating_intros =
  propagating_bind propagating_get propagating_post propagating_put propagating_delete
  propagating_return propagating_raise propagating_lift propagating_try_map
  propagating_data propagating_set_data propagating_pure

lemma propagates_full_name: "propagating w (full_name net w)"
  unfolding full_name_def
  by (auto split: option.splits intro!: propagating_intros)

lemma propagates_identifier: "propagating w (repo_identifier net w)"
  unfolding repo_identifier_def by (intro propagating_intros)

lemma propagates_clone_url: "propagating w (clone_url net w)"
  unfolding clone_url_def by (intro propagating_intros)

lemma propagates_get_labels: "propagating w (get_labels net w)"
  unfolding get_labels_def by (intro propagating_intros)

lemma propagates_create_label: "propagating w (create_label net name color w)"
  unfolding create_label_def
  by (intro propagating_bind propagates_get_labels)
     (auto intro!: propagating_intros)

lemma propagates_delete_label: "propagating w (delete_label net name w)"
  unfolding delete_label_def
  by (intro propagating_bind propagates_get_labels)
     (auto intro!: propagating_intros)

lemma propagates_get_issue: "propagating w (get_issue net n w)"
  unfolding get_issue_def
  by (intro propagating_bind propagates_full_name propagating_pure)

lemma propagates_get_mr: "propagating w (get_mr net n w)"
  unfolding get_mr_def
  by (intro propagating_bind propagates_full_name propagating_pure)

lemma propagates_hooks: "propagating w (hooks net w)"
  unfolding hooks_def by (intro propagating_intros)

lemma propagates_register_hook: "propagating w (register_hook net url secret events w)"
  unfolding register_hook_def Let_def
  by (intro propagating_bind propagates_hooks)
     (auto intro!: propagating_intros)

lemma propagates_delete_hook_loop: "propagating w (delete_hook_loop net hu url hs w)"
proof (induction hs arbitrary: w)
  case Nil
  show ?case by (simp add: propagating_return)
next
  case (Cons h hs)
  show ?case
    by simp (auto intro!: propagating_intros Cons.IH)
qed

lemma propagates_delete_hook: "propagating w (delete_hook net url w)"
  unfolding delete_hook_def Let_def
  by (intro propagating_intros propagates_delete_hook_loop)

lemma propagates_merge_requests: "propagating w (merge_requests net w)"
  unfolding merge_requests_def
  by (intro propagating_intros propagates_full_name)

lemma propagates_filter_issues: "propagating w (filter_issues net state w)"
  unfolding filter_issues_def
  by (auto split: option.splits intro!: propagating_intros propagates_full_name)

lemma propagates_issues: "propagating w (issues net w)"
  unfolding issues_def by (rule propagates_filter_issues)

lemma propagates_create_fork: "propagating w (create_fork net organization w)"
  unfolding create_fork_def Let_def by (intro propagating_intros)

lemma propagates_repo_delete: "propagating w (repo_delete net w)"
  unfolding repo_delete_def by (intro propagating_intros)

lemma propagates_create_merge_request:
  "propagating w (create_merge_request net title base head body w)"
  unfolding create_merge_request_def Let_def by (intro propagating_intros)

lemma propagates_create_file:
  "propagating w (create_file net path message content branch w)"
  unfolding create_file_def Let_def by (intro propagating_intros)

lemma propagates_priv_search:
  "propagating w (priv_search net strftime issue_type ca cb ua ub w)"
  unfolding priv_search_def Let_def
  by (auto split: option.splits intro!: propagating_intros)

lemma propagates_search_mrs: "propagating w (search_mrs net strftime ca cb ua ub w)"
  unfolding search_mrs_def
  by (intro propagating_intros propagates_priv_search propagates_get_mr)

lemma propagates_search_issues: "propagating w (search_issues net strftime ca cb ua ub w)"
  unfolding search_issues_def
  by (intro propagating_intros propagates_priv_search propagates_get_issue)

lemma commits_empty_repository:
  assumes "fst (net (server w) (commits_request (self w))) = Failed b 409"
  shows "commits net w = (Inr [], snd (fetch net (commits_request (self w)) w))"
  using assms
  by (cases "net (server w) (commits_request (self w))")
     (simp add: commits_def commits_body_def get_def fetch_def io_bind_apply
        commits_request_def)

lemma commits_other_status:
  assumes "fst (net (server w) (commits_request (self w))) = Failed b c" and "c \<noteq> 409"
  shows "commits net w =
           (Inl (RuntimeError [JStr b, JInt c]), snd (fetch net (commits_request (self w)) w))"
  using assms
  by (cases "net (server w) (commits_request (self w))")
     (simp add: commits_def commits_body_def get_def fetch_def io_bind_apply
        commits_request_def)

text \<open>
  Claim C4. When the provider answers the commit listing with status 409, \<open>commits\<close>
  returns the empty set, having made that one request; any other non-2xx status on the
  listing is raised as it came, body and status. No other operation of the class does
  the like: each of them propagates failures, that is, a non-2xx answer to any of its
  requests, a 409 included, ends it with the runtime failure carrying that body and
  status.
\<close>

theorem empty_repository_special_case:
  "(fst (net (server w) (commits_request (self w))) = Failed b 409 \<longrightarrow>
      fst (commits net w) = Inr []
      \<and> requests (snd (commits net w)) = requests w @ [commits_request (self w)])
   \<and> (fst (net (server w) (commits_request (self w))) = Failed b c \<and> c \<noteq> 409 \<longrightarrow>
      fst (commits net w) = Inl (RuntimeError [JStr b, JInt c]))
   \<and> propagates (repo_identifier net)
   \<and> propagates (full_name net)
   \<and> propagates (clone_url net)
   \<and> propagates (get_labels net)
   \<and> propagates (create_label net name color)
   \<and> propagates (delete_label net name)
   \<and> propagates (get_issue net number)
   \<and> propagates (get_mr net number)
   \<and> propagates (hooks net)
   \<and> propagates (register_hook net url secret events)
   \<and> propagates (delete_hook net url)
   \<and> propagates (merge_requests net)
   \<and> propagates (filter_issues net state)
   \<and> propagates (issues net)
   \<and> propagates (create_fork net organization)
   \<and> propagates (repo_delete net)
   \<and> propagates (create_merge_request net title base head body)
   \<and> propagates (create_file net path message content branch)
   \<and> propagates (search_mrs net strftime created_after created_before updated_after
         updated_before)
   \<and> propagates (search_issues net strftime created_after created_before updated_after
         updated_before)"
proof -
  have 1: "fst (commits net w) = Inr []
      \<and> requests (snd (commits net w)) = requests w @ [commits_request (self w)]"
    if "fst (net (server w) (commits_request (self w))) = Failed b 409"
    using commits_empty_repository[of net w b] that by (simp add: fetch_requests)
  have 2: "fst (commits net w) = Inl (RuntimeError [JStr b, JInt c])"
    if "fst (net (server w) (commits_request (self w))) = Failed b c \<and> c \<noteq> 409"
    using commits_other_status[of net w b c] that by simp
  have c1: "fst (net (server w) (commits_request (self w))) = Failed b 409 \<longrightarrow>
      fst (commits net w) = Inr []
      \<and> requests (snd (commits net w)) = requests w @ [commits_request (self w)]"
    using 1 by blast
  have c2: "fst (net (server w) (commits_request (self w))) = Failed b c \<and> c \<noteq> 409 \<longrightarrow>
      fst (commits net w) = Inl (RuntimeError [JStr b, JInt c])"
    using 2 by blast
  show ?thesis
    unfolding propagates_def
    by (intro conjI allI c1 c2 propagates_identifier propagates_full_name
          propagates_clone_url propagates_get_labels propagates_create_label
          propagates_delete_label propagates_get_issue propagates_get_mr propagates_hooks
          propagates_register_hook propagates_delete_hook propagates_merge_requests
          propagates_filter_issues propagates_issues propagates_create_fork
          propagates_repo_delete propagates_create_merge_request propagates_create_file
          propagates_search_mrs propagates_search_issues)
qed

theorem empty_repository_special_case_witness:
  "fst (commits replay (start test_repo [empty_answer])) = Inr []
   \<and> requests (snd (commits replay (start test_repo [empty_answer]))) =
       [commits_request test_repo]
   \<and> fst (commits replay (start test_repo [missing_answer])) =
       Inl (RuntimeError [JStr ''Not Found'', JInt 404])
   \<and> fst (get_labels replay (start test_repo [empty_answer])) =
       Inl (RuntimeError [JStr ''Git Repository is empty.'', JInt 409])"
proof -
  let ?w = "start test_repo [empty_answer]"
  let ?v = "start test_repo [missing_answer]"
  have e: "fst (replay (server ?w) (commits_request (self ?w))) =
             Failed ''Git Repository is empty.'' 409"
    by (simp add: replay_def start_def empty_answer_def)
  have m: "fst (replay (server ?v) (commits_request (self ?v))) = Failed ''Not Found'' 404
           \<and> (404 :: int) \<noteq> 409"
    by (simp add: replay_def start_def missing_answer_def)
  note a = empty_repository_special_case[where net = replay and w = ?w,
      THEN conjunct1, THEN mp, OF e]
  have 1: "fst (commits replay ?w) = Inr []" using a[THEN conjunct1] .
  have 2: "requests (snd (commits replay ?w)) = [commits_request test_repo]"
    using a[THEN conjunct2] by (simp add: start_def requests_def)
  have 3: "fst (commits replay ?v) = Inl (RuntimeError [JStr ''Not Found'', JInt 404])"
    using empty_repository_special_case[where net = replay and w = ?v,
        THEN conjunct2, THEN conjunct1, THEN mp, OF m] .
  have "propagates (get_labels (replay :: http_reply list net))"
    using empty_repository_special_case[where net = replay and w = ?w,
        THEN conjunct2, THEN conjunct2, THEN conjunct2, THEN conjunct2, THEN conjunct2,
        THEN conjunct1] .
  then have "propagating ?w (get_labels replay ?w)"
    unfolding propagates_def by (rule spec)
  then obtain new where
    t: "trace (snd (get_labels replay ?w)) = trace ?w @ new"
    and f: "\<forall>x \<in> set new. \<forall>b c. snd x = Failed b c \<longrightarrow>
              fst (get_labels replay ?w) = Inl (RuntimeError [JStr b, JInt c])"
    unfolding propagating_def by blast
  have "trace (snd (get_labels replay ?w)) =
          [(labels_request test_repo, Failed ''Git Repository is empty.'' 409)]"
    by (simp add: get_labels_world fetch_world replay_def start_def empty_answer_def)
  with t have "new = [(labels_request test_repo, Failed ''Git Repository is empty.'' 409)]"
    by (simp add: start_def)
  with f have 4: "fst (get_labels replay ?w) =
       Inl (RuntimeError [JStr ''Git Repository is empty.'', JInt 409])"
    by simp
  from 1 2 3 4 show ?thesis by (intro conjI)
qed

section \<open>Search: the filter conflict\<close>

lemma search_conflict_named:
  assumes "priv_repository (self w) = Some repository"
    and "(created_after \<noteq> None \<and> created_before \<noteq> None)
         \<or> (updated_after \<noteq> None \<and> updated_before \<noteq> None)"
  shows "priv_search net strftime issue_type created_after created_before updated_after
           updated_before w =
         (Inl (RuntimeError [JStr ''Cannot process before and after date simultaneously'']), w)"
    and "search_issues net strftime created_after created_before updated_after
           updated_before w =
         (Inl (RuntimeError [JStr ''Cannot process before and after date simultaneously'']), w)"
    and "search_mrs net strftime created_after created_before updated_after
           updated_before w =
         (Inl (RuntimeError [JStr ''Cannot process before and after date simultaneously'']), w)"
  using assms
  by (auto simp: priv_search_def search_issues_def search_mrs_def io_bind_apply Let_def)

text \<open>
  Claim C5 holds for a repository constructed from a name (\<open>search_conflict_named\<close>), but
  not for one constructed from a numeric id: \<open>_search\<close> first concatenates
  \<open>self._repository\<close>, which is \<open>None\<close> there, so consuming \<open>search_issues\<close> or
  \<open>search_mrs\<close> with both \<open>created_after\<close> and \<open>created_before\<close> ends with
  \<open>TypeError\<close> instead of the conflict error. No request is made in either case.
\<close>

theorem search_conflict_on_numbered_repository:
  "search_issues replay (\<lambda>d. d) (Some ''2017-01-01T00:00:00Z'') (Some ''2018-01-01T00:00:00Z'')
       None None (start numbered_repo []) =
     (Inl TypeError, start numbered_repo [])
   \<and> search_mrs replay (\<lambda>d. d) (Some ''2017-01-01T00:00:00Z'') (Some ''2018-01-01T00:00:00Z'')
       None None (start numbered_repo []) =
     (Inl TypeError, start numbered_repo [])"
  by (simp add: search_issues_def search_mrs_def priv_search_def io_bind_apply start_def
        numbered_repo_def numeric_repository_def)

end
